theory Spec2Isabelle
  imports Main "HOL-Library.Sublist"
begin

section \<open>Python exceptions\<close>

text \<open>
  The exception classes the three scripts can meet. \<open>KeyboardInterrupt\<close> derives from
  \<open>BaseException\<close> only, so a clause \<^verbatim>\<open>except Exception\<close> lets it pass; all the
  others derive from \<open>Exception\<close>. \<open>FileNotFoundError\<close> and \<open>PermissionError\<close> are
  subclasses of \<open>OSError\<close>.
\<close>

datatype py_exn =
    OSError
  | FileNotFoundError
  | PermissionError
  | TimeoutExpired
  | CalledProcessError
  | OverflowError
  | ValueError
  | EOFError
  | KeyboardInterrupt

fun is_Exception :: "py_exn \<Rightarrow> bool" where
  "is_Exception KeyboardInterrupt = False"
| "is_Exception _ = True"

fun is_OSError :: "py_exn \<Rightarrow> bool" where
  "is_OSError OSError = True"
| "is_OSError FileNotFoundError = True"
| "is_OSError PermissionError = True"
| "is_OSError _ = False"

section \<open>The port probe (start\_server.py and start\_server\_python.py)\<close>

text \<open>
  What the operating system does when (host, port) is probed: whether
  \<^verbatim>\<open>socket.socket(...)\<close> raises, what \<^verbatim>\<open>sock.connect_ex((host, port))\<close> returns
  (an errno, 0 for an established connection) or raises, and whether
  \<^verbatim>\<open>sock.close()\<close> raises. \<^verbatim>\<open>sock.settimeout(1)\<close> has no outcome of its own.
\<close>

record sock_ops =
  create_raises :: "py_exn option"
  connect_result :: "py_exn + int"
  close_raises :: "py_exn option"

type_synonym network = "string \<Rightarrow> int \<Rightarrow> sock_ops"

text \<open>The body of the \<^verbatim>\<open>try\<close> block, up to the value of \<^verbatim>\<open>result\<close>.\<close>

definition connect_probe :: "network \<Rightarrow> string \<Rightarrow> int \<Rightarrow> py_exn + int" where
  "connect_probe nw host port =
     (case create_raises (nw host port) of
        Some e \<Rightarrow> Inl e
      | None \<Rightarrow>
          (case connect_result (nw host port) of
             Inl e \<Rightarrow> Inl e
           | Inr result \<Rightarrow>
               (case close_raises (nw host port) of
                  Some e \<Rightarrow> Inl e
                | None \<Rightarrow> Inr result)))"

text \<open>
  \<^verbatim>\<open>return result != 0\<close> in the \<^verbatim>\<open>try\<close>, \<^verbatim>\<open>return True\<close> under
  \<^verbatim>\<open>except Exception\<close>. An exception outside \<open>Exception\<close> leaves the function.
\<close>

definition check_port_available :: "network \<Rightarrow> string \<Rightarrow> int \<Rightarrow> py_exn + bool" where
  "check_port_available nw host port =
     (case connect_probe nw host port of
        Inr result \<Rightarrow> Inr (result \<noteq> 0)
      | Inl e \<Rightarrow> if is_Exception e then Inr True else Inl e)"

section \<open>The free-port search\<close>

text \<open>
  \<^verbatim>\<open>for i in range(max_attempts): port = start_port + i; if check_port_available(host, port): return port\<close>
  and \<^verbatim>\<open>return None\<close> after the loop. The loop runs over the list of the indices.
\<close>

fun find_free_port_loop :: "network \<Rightarrow> string \<Rightarrow> int \<Rightarrow> nat list \<Rightarrow> py_exn + int option" where
  "find_free_port_loop nw host start_port [] = Inr None"
| "find_free_port_loop nw host start_port (i # rest) =
     (let port = start_port + int i in
      case check_port_available nw host port of
        Inl e \<Rightarrow> Inl e
      | Inr True \<Rightarrow> Inr (Some port)
      | Inr False \<Rightarrow> find_free_port_loop nw host start_port rest)"

definition find_free_port :: "network \<Rightarrow> string \<Rightarrow> int \<Rightarrow> int \<Rightarrow> py_exn + int option" where
  "find_free_port nw host start_port max_attempts =
     find_free_port_loop nw host start_port [0..<nat max_attempts]"

text \<open>The probe's two answers.\<close>

definition reports_free :: "network \<Rightarrow> string \<Rightarrow> int \<Rightarrow> bool" where
  "reports_free nw host port = (check_port_available nw host port = Inr True)"

definition reports_occupied :: "network \<Rightarrow> string \<Rightarrow> int \<Rightarrow> bool" where
  "reports_occupied nw host port = (check_port_available nw host port = Inr False)"

text \<open>Networks for concrete runs: every listed port of any host accepts the connection,
  every other port refuses it with ECONNREFUSED (111).\<close>

definition listening :: "int list \<Rightarrow> network" where
  "listening ports host port =
     \<lparr>create_raises = None,
      connect_result = Inr (if port \<in> set ports then 0 else 111),
      close_raises = None\<rparr>"

text \<open>A network where no socket can be created: \<^verbatim>\<open>socket.socket\<close> raises.\<close>

definition failing_create :: "py_exn \<Rightarrow> network" where
  "failing_create e host port =
     \<lparr>create_raises = Some e, connect_result = Inr 0, close_raises = None\<rparr>"

section \<open>Python strings\<close>

text \<open>
  A Python \<open>str\<close> is modelled as a \<open>string\<close>, one \<open>char\<close> per code point, for the code
  points below 256. The tables below are those of CPython for that range.
\<close>

text \<open>\<^verbatim>\<open>str.isspace\<close> on one character; the characters \<^verbatim>\<open>str.strip()\<close> and
  \<^verbatim>\<open>str.split()\<close> treat as whitespace.\<close>

definition is_space :: "char \<Rightarrow> bool" where
  "is_space c = ((of_char c :: nat) \<in> {9, 10, 11, 12, 13, 28, 29, 30, 31, 32, 133, 160})"

text \<open>\<^verbatim>\<open>s.strip()\<close> and \<^verbatim>\<open>s.strip(chars)\<close>.\<close>

definition py_strip :: "string \<Rightarrow> string" where
  "py_strip s = rev (dropWhile is_space (rev (dropWhile is_space s)))"

definition py_strip_chars :: "string \<Rightarrow> string \<Rightarrow> string" where
  "py_strip_chars chars s =
     rev (dropWhile (\<lambda>c. c \<in> set chars) (rev (dropWhile (\<lambda>c. c \<in> set chars) s)))"

text \<open>\<^verbatim>\<open>s.split()\<close>: the maximal runs of characters that are not whitespace. The first
  argument is the word being read.\<close>

fun split_ws_from :: "string \<Rightarrow> string \<Rightarrow> string list" where
  "split_ws_from cur [] = (if cur = [] then [] else [cur])"
| "split_ws_from cur (c # cs) =
     (if is_space c
      then (if cur = [] then split_ws_from [] cs else cur # split_ws_from [] cs)
      else split_ws_from (cur @ [c]) cs)"

definition py_split_ws :: "string \<Rightarrow> string list" where
  "py_split_ws s = split_ws_from [] s"

text \<open>\<^verbatim>\<open>s.split(None, 1)\<close>: the first word, and the rest of the string after the
  whitespace that follows the word, when that rest is not empty.\<close>

definition py_split_ws1 :: "string \<Rightarrow> string list" where
  "py_split_ws1 s =
     (let t = dropWhile is_space s in
      if t = [] then []
      else
        (let word = takeWhile (\<lambda>c. \<not> is_space c) t;
             rest = dropWhile is_space (dropWhile (\<lambda>c. \<not> is_space c) t)
         in if rest = [] then [word] else [word, rest]))"

text \<open>\<^verbatim>\<open>s.split(sep)\<close> for a separator that is not empty. \<open>skip\<close> counts the characters
  of a separator just found that are still to be passed over.\<close>

fun split_from :: "string \<Rightarrow> nat \<Rightarrow> string \<Rightarrow> string \<Rightarrow> string list" where
  "split_from sep skip cur [] = [cur]"
| "split_from sep skip cur (c # cs) =
     (if 0 < skip then split_from sep (skip - 1) cur cs
      else if prefix sep (c # cs) then cur # split_from sep (length sep - 1) [] cs
      else split_from sep 0 (cur @ [c]) cs)"

definition py_split :: "string \<Rightarrow> string \<Rightarrow> string list" where
  "py_split sep s = split_from sep 0 [] s"

text \<open>\<^verbatim>\<open>sub in s\<close>.\<close>

fun py_contains :: "string \<Rightarrow> string \<Rightarrow> bool" where
  "py_contains sub [] = (sub = [])"
| "py_contains sub (c # cs) = (prefix sub (c # cs) \<or> py_contains sub cs)"

text \<open>\<^verbatim>\<open>s.isdigit()\<close>: the ASCII digits and the superscripts two, three and one.\<close>

definition is_digit_char :: "char \<Rightarrow> bool" where
  "is_digit_char c =
     ((48 \<le> (of_char c :: nat) \<and> (of_char c :: nat) \<le> 57) \<or> (of_char c :: nat) \<in> {178, 179, 185})"

definition py_isdigit :: "string \<Rightarrow> bool" where
  "py_isdigit s = (s \<noteq> [] \<and> list_all is_digit_char s)"

text \<open>\<^verbatim>\<open>s.lower()\<close>: A..Z and the capital letters of Latin-1 move up by 32.\<close>

definition lower_char :: "char \<Rightarrow> char" where
  "lower_char c =
     (let n = (of_char c :: nat) in
      if (65 \<le> n \<and> n \<le> 90) \<or> (192 \<le> n \<and> n \<le> 222 \<and> n \<noteq> 215)
      then char_of (n + 32) else c)"

definition py_lower :: "string \<Rightarrow> string" where
  "py_lower s = map lower_char s"

text \<open>\<^verbatim>\<open>str(n)\<close> for an integer.\<close>

definition digit_char :: "nat \<Rightarrow> char" where
  "digit_char d = ''0123456789'' ! d"

fun digits :: "nat \<Rightarrow> string" where
  "digits n =
     (if n < 10 then [digit_char n]
      else digits (n div 10) @ [digit_char (n mod 10)])"

declare digits.simps [simp del]

definition py_str :: "int \<Rightarrow> string" where
  "py_str n = (if n < 0 then CHR ''-'' # digits (nat (- n)) else digits (nat n))"

text \<open>
  \<^verbatim>\<open>int(s)\<close> for a string: whitespace around the number is dropped (for \<open>int\<close> the
  characters 28..31 are not whitespace), then an optional sign, then decimal digits, where
  a single underscore may stand between two digits. Anything else raises \<open>ValueError\<close>.
  (The limit some versions of CPython put on the number of digits is not modelled.)
\<close>

definition is_int_space :: "char \<Rightarrow> bool" where
  "is_int_space c = ((of_char c :: nat) \<in> {9, 10, 11, 12, 13, 32, 133, 160})"

definition is_ascii_digit :: "char \<Rightarrow> bool" where
  "is_ascii_digit c = (48 \<le> (of_char c :: nat) \<and> (of_char c :: nat) \<le> 57)"

fun parse_digits :: "bool \<Rightarrow> nat \<Rightarrow> string \<Rightarrow> nat option" where
  "parse_digits prev acc [] = (if prev then Some acc else None)"
| "parse_digits prev acc (c # cs) =
     (if is_ascii_digit c then parse_digits True (10 * acc + (of_char c - 48)) cs
      else if c = CHR ''_'' \<and> prev then parse_digits False acc cs
      else None)"

definition py_int :: "string \<Rightarrow> py_exn + int" where
  "py_int s =
     (let t = rev (dropWhile is_int_space (rev (dropWhile is_int_space s)));
          negative = (t \<noteq> [] \<and> hd t = CHR ''-'');
          body = (if t \<noteq> [] \<and> (hd t = CHR ''-'' \<or> hd t = CHR ''+'') then tl t else t)
      in case parse_digits False 0 body of
           None \<Rightarrow> Inl ValueError
         | Some n \<Rightarrow> Inr (if negative then - int n else int n))"

section \<open>The environment of a run\<close>

text \<open>
  \<^verbatim>\<open>subprocess.run(cmd, ...)\<close> ends with a return code and the captured output, raises
  (the program is missing, permission is denied, the run is interrupted), or does not end
  by itself.
\<close>

datatype run_result = Completed int string | Raised py_exn | Hangs

text \<open>
  Everything a run reads from outside: the platform, the command line, the state of the
  network at the first probe and during the free-port search, the outcome of every
  command, the line typed at the prompt (or the exception \<^verbatim>\<open>input\<close> raises), the
  environment variables, whether the virtual environment and its interpreter exist,
  whether the HTTP server can bind, and the exception that ends \<^verbatim>\<open>serve_forever\<close>, if
  one does.
\<close>

record world =
  platform_system :: string
  sys_platform :: string
  sys_argv :: "string list"
  net_check :: network
  net_search :: network
  shell :: "string list \<Rightarrow> run_result"
  stdin_line :: "py_exn + string"
  environ :: "string \<rightharpoonup> string"
  venv_exists :: bool
  venv_python_exists :: bool
  bind_result :: "string \<Rightarrow> int \<Rightarrow> py_exn option"
  serve_forever_ends :: "py_exn option"

text \<open>
  The lines the scripts print, one constructor per \<^verbatim>\<open>print\<close> call (the texts are in
  Russian in the source; the arguments are the values formatted into them).
\<close>

datatype message =
    Blank
  | Rule
  | Searching_port int
  | Port_busy int
  | Found_process
  | Show_pid int
  | Show_name string
  | Show_path string
  | Killed
  | Kill_failed
  | Cancelled
  | No_info int
  | No_process int
  | Port_free int
  | Lookup_error py_exn
  | Lsof_missing
  | Info_error py_exn
  | Kill_error py_exn
  | Venv_used
  | Venv_found
  | Node_version string
  | Node_missing
  | Node_hint
  | Port_taken int
  | Searching_free
  | Found_free int
  | No_free_port
  | No_free_port_hint
  | Title
  | Subtitle
  | Subtitle_python
  | Address string int
  | Directory
  | Stop_hint
  | Starting
  | Starting_python
  | Server_error py_exn
  | Stopped_by_user
  | Bind_error py_exn
  | Server_started string int
  | Stopping
  | Stopped

text \<open>The request handler classes: the standard library's, and the subclass that
  start\_server\_python.py defines.\<close>

datatype handler_class = SimpleHTTPRequestHandler | CustomHTTPRequestHandler

text \<open>What a run does to the outside, in order. \<open>Bind\<close> is the construction
  \<^verbatim>\<open>HTTPServer((host, port), handler_class)\<close>.\<close>

datatype event =
    Print message
  | Run "string list"
  | Read_input
  | Chdir
  | Setenv string string
  | Start_browser_thread int
  | Bind string int handler_class
  | Serve_forever
  | Shutdown

text \<open>How a script ends: it returns from its last statement (exit status 0), calls
  \<^verbatim>\<open>sys.exit(n)\<close>, dies of an exception nobody caught (the interpreter prints the
  traceback), or keeps running.\<close>

datatype outcome = Returned | Exit int | Uncaught py_exn | Runs_on

text \<open>\<^verbatim>\<open>subprocess.run(cmd, ..., timeout=t)\<close>, with or without \<^verbatim>\<open>check=True\<close>: a run that
  does not end by itself is ended by the timeout.\<close>

definition subprocess_run :: "(string list \<Rightarrow> run_result) \<Rightarrow> string list \<Rightarrow> bool \<Rightarrow> py_exn + (int \<times> string)" where
  "subprocess_run sh cmd check =
     (case sh cmd of
        Raised e \<Rightarrow> Inl e
      | Hangs \<Rightarrow> Inl TimeoutExpired
      | Completed returncode out \<Rightarrow>
          if check \<and> returncode \<noteq> 0 then Inl CalledProcessError
          else Inr (returncode, out))"

section \<open>kill\_port.py: the Port Reaper\<close>

subsection \<open>find\_process\_on\_port\<close>

text \<open>The loop over the lines of \<^verbatim>\<open>netstat -ano\<close>.\<close>

fun netstat_lines :: "int \<Rightarrow> string list \<Rightarrow> py_exn + int option" where
  "netstat_lines port [] = Inr None"
| "netstat_lines port (line # rest) =
     (if py_contains (CHR '':'' # py_str port) line \<and> py_contains ''LISTENING'' line
      then
        (let parts = py_split_ws line in
         if length parts > 0
         then
           (let pid = last parts in
            if py_isdigit pid
            then (case py_int pid of Inl e \<Rightarrow> Inl e | Inr n \<Rightarrow> Inr (Some n))
            else netstat_lines port rest)
         else netstat_lines port rest)
      else netstat_lines port rest)"

text \<open>The two \<^verbatim>\<open>try\<close> bodies, falling through to the final \<^verbatim>\<open>return None\<close>.\<close>

definition find_windows :: "world \<Rightarrow> int \<Rightarrow> py_exn + int option" where
  "find_windows w port =
     (case subprocess_run (shell w) [''netstat'', ''-ano''] False of
        Inl e \<Rightarrow> Inl e
      | Inr (returncode, out) \<Rightarrow> netstat_lines port (py_split [CHR 0x0A] out))"

definition find_unix :: "world \<Rightarrow> int \<Rightarrow> py_exn + int option" where
  "find_unix w port =
     (case subprocess_run (shell w) [''lsof'', ''-ti'', CHR '':'' # py_str port] False of
        Inl e \<Rightarrow> Inl e
      | Inr (returncode, out) \<Rightarrow>
          if returncode = 0 \<and> py_strip out \<noteq> []
          then (case py_int (py_strip out) of Inl e \<Rightarrow> Inl e | Inr n \<Rightarrow> Inr (Some n))
          else Inr None)"

definition find_process_on_port :: "world \<Rightarrow> int \<Rightarrow> event list \<times> (py_exn + int option)" where
  "find_process_on_port w port =
     (if platform_system w = ''Windows''
      then
        (case find_windows w port of
           Inr r \<Rightarrow> ([Run [''netstat'', ''-ano'']], Inr r)
         | Inl e \<Rightarrow>
             if is_Exception e
             then ([Run [''netstat'', ''-ano''], Print (Lookup_error e)], Inr None)
             else ([Run [''netstat'', ''-ano'']], Inl e))
      else
        (case find_unix w port of
           Inr r \<Rightarrow> ([Run [''lsof'', ''-ti'', CHR '':'' # py_str port]], Inr r)
         | Inl e \<Rightarrow>
             if e = FileNotFoundError
             then ([Run [''lsof'', ''-ti'', CHR '':'' # py_str port], Print Lsof_missing], Inr None)
             else if is_Exception e
             then ([Run [''lsof'', ''-ti'', CHR '':'' # py_str port], Print (Lookup_error e)], Inr None)
             else ([Run [''lsof'', ''-ti'', CHR '':'' # py_str port]], Inl e)))"

subsection \<open>get\_process\_info\<close>

text \<open>The dictionary with the keys \<^verbatim>\<open>'name'\<close>, \<^verbatim>\<open>'pid'\<close> and \<^verbatim>\<open>'path'\<close>.\<close>

record process_info =
  info_name :: string
  info_pid :: int
  info_path :: string

definition tasklist_command :: "int \<Rightarrow> string list" where
  "tasklist_command pid = [''tasklist'', ''/FI'', ''PID eq '' @ py_str pid, ''/FO'', ''CSV'', ''/NH'']"

definition ps_command :: "int \<Rightarrow> string list" where
  "ps_command pid = [''ps'', ''-p'', py_str pid, ''-o'', ''comm='', ''-o'', ''args='']"

definition info_windows :: "world \<Rightarrow> int \<Rightarrow> py_exn + process_info option" where
  "info_windows w pid =
     (case subprocess_run (shell w) (tasklist_command pid) False of
        Inl e \<Rightarrow> Inl e
      | Inr (returncode, out) \<Rightarrow>
          if returncode = 0 \<and> py_strip out \<noteq> []
          then
            (let parts = py_split [CHR 0x22, CHR '','', CHR 0x22] (py_strip out) in
             if length parts \<ge> 2
             then Inr (Some \<lparr>info_name = py_strip_chars [CHR 0x22] (hd parts),
                             info_pid = pid,
                             info_path = (if length parts > 1
                                          then py_strip_chars [CHR 0x22] (last parts)
                                          else ''N/A'')\<rparr>)
             else Inr None)
          else Inr None)"

definition info_unix :: "world \<Rightarrow> int \<Rightarrow> py_exn + process_info option" where
  "info_unix w pid =
     (case subprocess_run (shell w) (ps_command pid) False of
        Inl e \<Rightarrow> Inl e
      | Inr (returncode, out) \<Rightarrow>
          if returncode = 0 \<and> py_strip out \<noteq> []
          then
            (let parts = py_split_ws1 (py_strip out) in
             Inr (Some \<lparr>info_name = (if parts \<noteq> [] then hd parts else ''N/A''),
                        info_pid = pid,
                        info_path = (if length parts > 1 then parts ! 1 else ''N/A'')\<rparr>))
          else Inr None)"

text \<open>Both \<^verbatim>\<open>except Exception\<close> clauses print and fall through to \<^verbatim>\<open>return None\<close>.\<close>

definition get_process_info :: "world \<Rightarrow> int \<Rightarrow> event list \<times> (py_exn + process_info option)" where
  "get_process_info w pid =
     (let cmd = (if platform_system w = ''Windows'' then tasklist_command pid else ps_command pid) in
      case (if platform_system w = ''Windows'' then info_windows w pid else info_unix w pid) of
        Inr r \<Rightarrow> ([Run cmd], Inr r)
      | Inl e \<Rightarrow>
          if is_Exception e then ([Run cmd, Print (Info_error e)], Inr None)
          else ([Run cmd], Inl e))"

subsection \<open>kill\_process\<close>

definition kill_command :: "string \<Rightarrow> int \<Rightarrow> string list" where
  "kill_command system pid =
     (if system = ''Windows'' then [''taskkill'', ''/F'', ''/PID'', py_str pid]
      else [''kill'', ''-9'', py_str pid])"

text \<open>
  \<^verbatim>\<open>subprocess.run(..., check=True, timeout=10)\<close> in a \<^verbatim>\<open>try\<close>; \<^verbatim>\<open>return True\<close> after it;
  \<^verbatim>\<open>except subprocess.CalledProcessError: return False\<close>;
  \<^verbatim>\<open>except Exception as e: print(...); return False\<close>.
\<close>

definition kill_process :: "world \<Rightarrow> int \<Rightarrow> event list \<times> (py_exn + bool)" where
  "kill_process w pid =
     (let cmd = kill_command (platform_system w) pid in
      case subprocess_run (shell w) cmd True of
        Inr r \<Rightarrow> ([Run cmd], Inr True)
      | Inl e \<Rightarrow>
          if e = CalledProcessError then ([Run cmd], Inr False)
          else if is_Exception e then ([Run cmd, Print (Kill_error e)], Inr False)
          else ([Run cmd], Inl e))"

subsection \<open>main\<close>

text \<open>Lines 154 to 161: the prompt, and what follows the answer.\<close>

definition confirm_and_kill :: "world \<Rightarrow> int \<Rightarrow> event list \<times> outcome" where
  "confirm_and_kill w pid =
     (case stdin_line w of
        Inl e \<Rightarrow> ([Read_input], Uncaught e)
      | Inr response \<Rightarrow>
          if py_lower response = ''y''
          then
            (case kill_process w pid of
               (evs, Inl e) \<Rightarrow> (Read_input # evs, Uncaught e)
             | (evs, Inr True) \<Rightarrow> (Read_input # evs @ [Print Killed], Returned)
             | (evs, Inr False) \<Rightarrow> (Read_input # evs @ [Print Kill_failed], Returned))
          else ([Read_input, Print Cancelled], Returned))"

text \<open>Lines 142 to 165: the port is occupied.\<close>

definition port_occupied :: "world \<Rightarrow> int \<Rightarrow> event list \<times> outcome" where
  "port_occupied w port =
     (case find_process_on_port w port of
        (ev1, Inl e) \<Rightarrow> (Print (Port_busy port) # ev1, Uncaught e)
      | (ev1, Inr None) \<Rightarrow> (Print (Port_busy port) # ev1 @ [Print (No_process port)], Returned)
      | (ev1, Inr (Some pid)) \<Rightarrow>
          if pid = 0 then (Print (Port_busy port) # ev1 @ [Print (No_process port)], Returned)
          else
            (case get_process_info w pid of
               (ev2, Inl e) \<Rightarrow> (Print (Port_busy port) # ev1 @ ev2, Uncaught e)
             | (ev2, Inr None) \<Rightarrow>
                 (Print (Port_busy port) # ev1 @ ev2 @ [Print (No_info pid)], Returned)
             | (ev2, Inr (Some info)) \<Rightarrow>
                 (let (ev3, out) = confirm_and_kill w pid in
                  (Print (Port_busy port) # ev1 @ ev2 @
                     [Print Found_process, Print (Show_pid (info_pid info)),
                      Print (Show_name (info_name info)), Print (Show_path (info_path info)),
                      Print Blank] @ ev3,
                   out))))"

text \<open>Line 126: \<^verbatim>\<open>port = int(sys.argv[1]) if len(sys.argv) > 1 else 8000\<close>.\<close>

definition port_argument :: "world \<Rightarrow> py_exn + int" where
  "port_argument w = (if length (sys_argv w) > 1 then py_int (sys_argv w ! 1) else Inr 8000)"

text \<open>Lines 128 to 132: the header.\<close>

definition header :: "int \<Rightarrow> event list" where
  "header port = [Print Blank, Print Rule, Print (Searching_port port), Print Rule, Print Blank]"

text \<open>
  The whole of \<^verbatim>\<open>main\<close>: the port from the command line, the header, the probe
  (not in a \<^verbatim>\<open>try\<close>), the two branches, and the last empty line when nothing was raised.
\<close>

definition main :: "world \<Rightarrow> event list \<times> outcome" where
  "main w =
     (case port_argument w of
        Inl e \<Rightarrow> ([], Uncaught e)
      | Inr port \<Rightarrow>
          (case connect_probe (net_check w) ''localhost'' port of
             Inl e \<Rightarrow> (header port, Uncaught e)
           | Inr result \<Rightarrow>
               if result = 0
               then
                 (case port_occupied w port of
                    (evs, Returned) \<Rightarrow> (header port @ evs @ [Print Blank], Returned)
                  | (evs, out) \<Rightarrow> (header port @ evs, out))
               else (header port @ [Print (Port_free port), Print Blank], Returned)))"

text \<open>Whether an event is the start of one of the two termination commands.\<close>

fun runs_kill :: "event \<Rightarrow> bool" where
  "runs_kill (Run (c # args)) = (c = ''taskkill'' \<or> c = ''kill'')"
| "runs_kill e = False"


text \<open>A Unix machine where port 8000 is held by process 4242, a Python server:
  \<^verbatim>\<open>kill -9\<close> ends that process and exits with 1 for any other pid, and no other
  program is installed.\<close>

definition demo_shell :: "string list \<Rightarrow> run_result" where
  "demo_shell cmd =
     (if cmd = [''lsof'', ''-ti'', '':8000''] then Completed 0 ''4242\<newline>''
      else if cmd = [''ps'', ''-p'', ''4242'', ''-o'', ''comm='', ''-o'', ''args='']
        then Completed 0 ''python3 python3 -m http.server\<newline>''
      else if cmd = [''kill'', ''-9'', ''4242''] then Completed 0 []
      else if take 2 cmd = [''kill'', ''-9''] then Completed 1 []
      else if take 1 cmd = [''lsof''] \<or> take 1 cmd = [''ps''] then Completed 1 []
      else Raised FileNotFoundError)"

definition demo_world :: "string list \<Rightarrow> string \<Rightarrow> world" where
  "demo_world args answer =
     \<lparr>platform_system = ''Linux'',
      sys_platform = ''linux'',
      sys_argv = ''kill_port.py'' # args,
      net_check = listening [8000],
      net_search = listening [8000],
      shell = demo_shell,
      stdin_line = Inr answer,
      environ = Map.empty,
      venv_exists = False,
      venv_python_exists = False,
      bind_result = (\<lambda>host port. None),
      serve_forever_ends = Some KeyboardInterrupt\<rparr>"

text \<open>The same machine when \<^verbatim>\<open>ps\<close> fails, when no command may be run, and when
  every command hangs.\<close>

definition no_ps_world :: world where
  "no_ps_world =
     (demo_world [] ''y'')\<lparr>shell := (\<lambda>cmd. if take 1 cmd = [''ps''] then Completed 1 [] else demo_shell cmd)\<rparr>"

definition denied_world :: world where
  "denied_world = (demo_world [] ''y'')\<lparr>shell := (\<lambda>cmd. Raised PermissionError)\<rparr>"

definition hung_world :: world where
  "hung_world = (demo_world [] ''y'')\<lparr>shell := (\<lambda>cmd. Hangs)\<rparr>"

section \<open>start\_server.py: the launcher that runs npx http-server\<close>

definition DEFAULT_PORT :: int where
  "DEFAULT_PORT = 8000"

definition HOST :: string where
  "HOST = ''localhost''"

text \<open>
  What a launcher leaves behind: the events in order, the environment variables, the
  module-level variable \<^verbatim>\<open>PORT\<close> (initially \<^verbatim>\<open>DEFAULT_PORT\<close>), and how the run ended.
\<close>

record run =
  run_events :: "event list"
  run_environ :: "string \<rightharpoonup> string"
  run_PORT :: int
  run_outcome :: outcome

text \<open>\<^verbatim>\<open>activate_venv\<close>: the interpreter's path is returned (and the message printed) when
  the directory and the interpreter of the platform exist. The caller only tests the
  result for truth, so the model returns whether a path was returned.\<close>

definition activate_venv :: "world \<Rightarrow> event list \<times> bool" where
  "activate_venv w =
     (if venv_exists w \<and> venv_python_exists w then ([Print Venv_used], True) else ([], False))"

definition print_header :: "int \<Rightarrow> event list" where
  "print_header port =
     [Print Blank, Print Rule, Print Title, Print Subtitle, Print Rule, Print Blank,
      Print (Address HOST port), Print Directory, Print Blank, Print Stop_hint, Print Blank,
      Print Rule, Print Blank]"

text \<open>
  \<^verbatim>\<open>check_node_installed\<close>: \<^verbatim>\<open>node --version\<close> with a timeout of 5 seconds. Return code 0
  prints the version and returns true; \<open>FileNotFoundError\<close> and \<open>TimeoutExpired\<close> are
  passed over; every path but the first ends in the two error lines and false. Any other
  exception leaves the function.
\<close>

definition check_node_installed :: "world \<Rightarrow> event list \<times> (py_exn + bool)" where
  "check_node_installed w =
     (case subprocess_run (shell w) [''node'', ''--version''] False of
        Inr (returncode, out) \<Rightarrow>
          if returncode = 0
          then ([Run [''node'', ''--version''], Print (Node_version (py_strip out))], Inr True)
          else ([Run [''node'', ''--version''], Print Node_missing, Print Node_hint], Inr False)
      | Inl e \<Rightarrow>
          if e = FileNotFoundError \<or> e = TimeoutExpired
          then ([Run [''node'', ''--version''], Print Node_missing, Print Node_hint], Inr False)
          else ([Run [''node'', ''--version'']], Inl e))"

definition npx_command :: "int \<Rightarrow> string list" where
  "npx_command port = [''npx'', ''http-server'', ''-p'', py_str port, ''-d'', ''false'', ''-o'']"

text \<open>
  Lines 128 to 149, once \<^verbatim>\<open>PORT\<close> is set: the header, the browser thread, and
  \<^verbatim>\<open>subprocess.run(['npx', ...], check=True)\<close>, which has no timeout.
  \<open>CalledProcessError\<close> prints the error and exits with 1, \<open>KeyboardInterrupt\<close> prints
  the farewell and exits with 0, a return code of 0 lets \<^verbatim>\<open>start_server\<close> return.
\<close>

definition serve_npx :: "world \<Rightarrow> event list \<Rightarrow> (string \<rightharpoonup> string) \<Rightarrow> int \<Rightarrow> run" where
  "serve_npx w sofar env port =
     (let evs = sofar @ print_header port @ [Print Starting, Print Blank,
                  Start_browser_thread port, Run (npx_command port)]
      in case shell w (npx_command port) of
           Completed returncode out \<Rightarrow>
             if returncode \<noteq> 0
             then \<lparr>run_events = evs @ [Print (Server_error CalledProcessError)],
                   run_environ = env, run_PORT = port, run_outcome = Exit 1\<rparr>
             else \<lparr>run_events = evs, run_environ = env, run_PORT = port, run_outcome = Returned\<rparr>
         | Raised e \<Rightarrow>
             if e = CalledProcessError
             then \<lparr>run_events = evs @ [Print (Server_error CalledProcessError)],
                   run_environ = env, run_PORT = port, run_outcome = Exit 1\<rparr>
             else if e = KeyboardInterrupt
             then \<lparr>run_events = evs @ [Print Stopped_by_user],
                   run_environ = env, run_PORT = port, run_outcome = Exit 0\<rparr>
             else \<lparr>run_events = evs, run_environ = env, run_PORT = port, run_outcome = Uncaught e\<rparr>
         | Hangs \<Rightarrow> \<lparr>run_events = evs, run_environ = env, run_PORT = port, run_outcome = Runs_on\<rparr>)"

text \<open>\<^verbatim>\<open>if free_port:\<close> is false for none and for 0; otherwise the value is used.\<close>

definition truthy :: "int option \<Rightarrow> int option" where
  "truthy v = (case v of None \<Rightarrow> None | Some n \<Rightarrow> if n = 0 then None else Some n)"

text \<open>
  \<^verbatim>\<open>start_server\<close>. \<^verbatim>\<open>os.chdir\<close> to the script's own directory and the start of
  the thread are taken to succeed.
\<close>

definition start_server :: "world \<Rightarrow> run" where
  "start_server w =
     (case check_node_installed w of
        (ev1, Inl e) \<Rightarrow>
          \<lparr>run_events = Chdir # ev1, run_environ = environ w, run_PORT = DEFAULT_PORT,
           run_outcome = Uncaught e\<rparr>
      | (ev1, Inr False) \<Rightarrow>
          \<lparr>run_events = Chdir # ev1, run_environ = environ w, run_PORT = DEFAULT_PORT,
           run_outcome = Exit 1\<rparr>
      | (ev1, Inr True) \<Rightarrow>
          (case check_port_available (net_check w) HOST DEFAULT_PORT of
             Inl e \<Rightarrow>
               \<lparr>run_events = Chdir # ev1, run_environ = environ w, run_PORT = DEFAULT_PORT,
                run_outcome = Uncaught e\<rparr>
           | Inr True \<Rightarrow> serve_npx w (Chdir # ev1) (environ w) DEFAULT_PORT
           | Inr False \<Rightarrow>
               (case find_free_port (net_search w) HOST DEFAULT_PORT 10 of
                  Inl e \<Rightarrow>
                    \<lparr>run_events = Chdir # ev1 @ [Print (Port_taken DEFAULT_PORT), Print Searching_free],
                     run_environ = environ w, run_PORT = DEFAULT_PORT, run_outcome = Uncaught e\<rparr>
                | Inr free_port \<Rightarrow>
                    (case truthy free_port of
                       Some port \<Rightarrow>
                         serve_npx w
                           (Chdir # ev1 @ [Print (Port_taken DEFAULT_PORT), Print Searching_free,
                              Print (Found_free port), Setenv ''PORT'' (py_str port)])
                           ((environ w)(''PORT'' \<mapsto> py_str port))
                           port
                     | None \<Rightarrow>
                         \<lparr>run_events = Chdir # ev1 @ [Print (Port_taken DEFAULT_PORT), Print Searching_free,
                            Print No_free_port, Print No_free_port_hint],
                          run_environ = environ w, run_PORT = DEFAULT_PORT,
                          run_outcome = Exit 1\<rparr>))))"

text \<open>The script: \<^verbatim>\<open>activate_venv\<close>, an empty line when it returned a path, then
  \<^verbatim>\<open>start_server\<close>.\<close>

definition start_server_script :: "world \<Rightarrow> run" where
  "start_server_script w =
     (let (ev0, venv_python) = activate_venv w;
          r = start_server w
      in r\<lparr>run_events := ev0 @ (if venv_python then [Print Blank] else []) @ run_events r\<rparr>)"

section \<open>start\_server\_python.py: the launcher with the built-in HTTP server\<close>

definition check_venv :: "world \<Rightarrow> event list \<times> bool" where
  "check_venv w = (if venv_exists w then ([Print Venv_found], True) else ([], False))"

definition print_header_py :: "int \<Rightarrow> event list" where
  "print_header_py port =
     [Print Blank, Print Rule, Print Title, Print Subtitle_python, Print Rule, Print Blank,
      Print (Address HOST port), Print Directory, Print Blank, Print Stop_hint, Print Blank,
      Print Rule, Print Blank]"

text \<open>
  Lines 112 to 139, once \<^verbatim>\<open>PORT\<close> is set: the header,
  \<^verbatim>\<open>HTTPServer((HOST, PORT), CustomHTTPRequestHandler)\<close>
  (an \<open>OSError\<close> prints the error and exits with 1), the browser thread, the message,
  and \<^verbatim>\<open>serve_forever\<close>, which \<open>KeyboardInterrupt\<close> ends with a shutdown and exit 0.
\<close>

definition serve_builtin :: "world \<Rightarrow> event list \<Rightarrow> int \<Rightarrow> run" where
  "serve_builtin w sofar port =
     (let evs = sofar @ print_header_py port @ [Print Starting_python, Print Blank,
                   Bind HOST port CustomHTTPRequestHandler]
      in case bind_result w HOST port of
           Some e \<Rightarrow>
             if is_OSError e
             then \<lparr>run_events = evs @ [Print (Bind_error e)], run_environ = environ w,
                   run_PORT = port, run_outcome = Exit 1\<rparr>
             else \<lparr>run_events = evs, run_environ = environ w, run_PORT = port,
                   run_outcome = Uncaught e\<rparr>
         | None \<Rightarrow>
             (let evs2 = evs @ [Start_browser_thread port, Print (Server_started HOST port),
                          Print Blank, Serve_forever]
              in case serve_forever_ends w of
                   None \<Rightarrow>
                     \<lparr>run_events = evs2, run_environ = environ w, run_PORT = port,
                      run_outcome = Runs_on\<rparr>
                 | Some e \<Rightarrow>
                     if e = KeyboardInterrupt
                     then \<lparr>run_events = evs2 @ [Print Stopping, Shutdown, Print Stopped],
                           run_environ = environ w, run_PORT = port, run_outcome = Exit 0\<rparr>
                     else \<lparr>run_events = evs2, run_environ = environ w, run_PORT = port,
                           run_outcome = Uncaught e\<rparr>))"

definition start_server_py :: "world \<Rightarrow> run" where
  "start_server_py w =
     (case check_port_available (net_check w) HOST DEFAULT_PORT of
        Inl e \<Rightarrow>
          \<lparr>run_events = [Chdir], run_environ = environ w, run_PORT = DEFAULT_PORT,
           run_outcome = Uncaught e\<rparr>
      | Inr True \<Rightarrow> serve_builtin w [Chdir] DEFAULT_PORT
      | Inr False \<Rightarrow>
          (case find_free_port (net_search w) HOST DEFAULT_PORT 10 of
             Inl e \<Rightarrow>
               \<lparr>run_events = [Chdir, Print (Port_taken DEFAULT_PORT), Print Searching_free],
                run_environ = environ w, run_PORT = DEFAULT_PORT, run_outcome = Uncaught e\<rparr>
           | Inr free_port \<Rightarrow>
               (case truthy free_port of
                  Some port \<Rightarrow>
                    serve_builtin w
                      [Chdir, Print (Port_taken DEFAULT_PORT), Print Searching_free,
                       Print (Found_free port)]
                      port
                | None \<Rightarrow>
                    \<lparr>run_events = [Chdir, Print (Port_taken DEFAULT_PORT), Print Searching_free,
                       Print No_free_port, Print No_free_port_hint],
                     run_environ = environ w, run_PORT = DEFAULT_PORT, run_outcome = Exit 1\<rparr>)))"

definition start_server_py_script :: "world \<Rightarrow> run" where
  "start_server_py_script w =
     (let (ev0, found) = check_venv w;
          r = start_server_py w
      in r\<lparr>run_events := ev0 @ run_events r\<rparr>)"

subsection \<open>CustomHTTPRequestHandler\<close>






section \<open>The statements' own vocabulary\<close>

text \<open>
  The port a launcher is meant to settle on: the default port when the probe reports it
  free, otherwise the port the free-port search returns, if it returns one.
\<close>

definition resolved_port :: "world \<Rightarrow> int option" where
  "resolved_port w =
     (case check_port_available (net_check w) HOST DEFAULT_PORT of
        Inr True \<Rightarrow> Some DEFAULT_PORT
      | Inr False \<Rightarrow>
          (case find_free_port (net_search w) HOST DEFAULT_PORT 10 of
             Inr (Some p) \<Rightarrow> Some p
           | _ \<Rightarrow> None)
      | Inl e \<Rightarrow> None)"

text \<open>
  The Node.js check fails when \<^verbatim>\<open>node --version\<close> cannot be started because the program
  is missing, does not end within the timeout, or ends with a return code other than 0; it
  succeeds when the command ends with return code 0.
\<close>

definition node_fails :: "world \<Rightarrow> bool" where
  "node_fails w =
     (case shell w [''node'', ''--version''] of
        Completed returncode out \<Rightarrow> returncode \<noteq> 0
      | Raised e \<Rightarrow> e = FileNotFoundError \<or> e = TimeoutExpired
      | Hangs \<Rightarrow> True)"

definition node_ok :: "world \<Rightarrow> bool" where
  "node_ok w =
     (case shell w [''node'', ''--version''] of
        Completed returncode out \<Rightarrow> returncode = 0
      | Raised e \<Rightarrow> False
      | Hangs \<Rightarrow> False)"

text \<open>The server command fails: it ends with a return code other than 0 (which
  \<^verbatim>\<open>check=True\<close> turns into \<open>CalledProcessError\<close>).\<close>

definition server_failed :: "world \<Rightarrow> int \<Rightarrow> bool" where
  "server_failed w port =
     (case shell w (npx_command port) of
        Completed returncode out \<Rightarrow> returncode \<noteq> 0
      | Raised e \<Rightarrow> e = CalledProcessError
      | Hangs \<Rightarrow> False)"

text \<open>The ports an event carries: in the banner and the start message, in the bind, in
  the browser thread, in the command line of the server.\<close>

fun ports_of :: "event \<Rightarrow> int list" where
  "ports_of (Print (Address h p)) = [p]"
| "ports_of (Print (Server_started h p)) = [p]"
| "ports_of (Bind h p cls) = [p]"
| "ports_of (Start_browser_thread p) = [p]"
| "ports_of e = []"


text \<open>A machine with Node.js; \<^verbatim>\<open>npx http-server\<close> runs until the operator interrupts it,
  or fails at once.\<close>

definition node_shell :: "run_result \<Rightarrow> string list \<Rightarrow> run_result" where
  "node_shell served cmd =
     (if cmd = [''node'', ''--version''] then Completed 0 ''v20.11.0\<newline>''
      else if take 2 cmd = [''npx'', ''http-server''] then served
      else Raised FileNotFoundError)"

definition launch_world :: "int list \<Rightarrow> run_result \<Rightarrow> (string \<rightharpoonup> string) \<Rightarrow> world" where
  "launch_world busy served env =
     \<lparr>platform_system = ''Linux'',
      sys_platform = ''linux'',
      sys_argv = [''start_server.py''],
      net_check = listening busy,
      net_search = listening busy,
      shell = node_shell served,
      stdin_line = Inl EOFError,
      environ = env,
      venv_exists = False,
      venv_python_exists = False,
      bind_result = (\<lambda>host port. None),
      serve_forever_ends = Some KeyboardInterrupt\<rparr>"



section \<open>The free-port search returns the first free port\<close>

lemma check_port_available_cases:
  "check_port_available nw h p = Inr True \<or> check_port_available nw h p = Inr False \<or> (\<exists>e. check_port_available nw h p = Inl e)"
  by (cases "check_port_available nw h p") auto

lemma find_free_port_loop_Some:
  "(find_free_port_loop nw h s [k..<n] = Inr (Some p)) =
   (\<exists>i. k \<le> i \<and> i < n \<and> p = s + int i \<and> reports_free nw h p \<and>
        (\<forall>j. k \<le> j \<and> j < i \<longrightarrow> reports_occupied nw h (s + int j)))"
proof (induction "n - k" arbitrary: k)
  case 0
  then show ?case by simp
next
  case (Suc d)
  then have kn: "k < n" and d: "d = n - Suc k" by simp_all
  have unf: "[k..<n] = k # [Suc k..<n]" using kn by (simp add: upt_rec)
  note IH = Suc.hyps(1)[OF d]
  let ?R = "\<lambda>k. \<exists>i. k \<le> i \<and> i < n \<and> p = s + int i \<and> reports_free nw h p \<and>
        (\<forall>j. k \<le> j \<and> j < i \<longrightarrow> reports_occupied nw h (s + int j))"
  show ?case
    using check_port_available_cases[of nw h "s + int k"]
  proof (elim disjE exE)
    assume a: "check_port_available nw h (s + int k) = Inr True"
    have "?R k = (p = s + int k)"
    proof
      assume "?R k"
      then obtain i where i: "k \<le> i" "p = s + int i"
        and occ: "\<forall>j. k \<le> j \<and> j < i \<longrightarrow> reports_occupied nw h (s + int j)" by blast
      have "i = k"
      proof (rule ccontr)
        assume "i \<noteq> k"
        with i have "k < i" by simp
        with occ have "reports_occupied nw h (s + int k)" by simp
        with a show False by (simp add: reports_occupied_def)
      qed
      with i show "p = s + int k" by simp
    next
      assume "p = s + int k"
      with a kn show "?R k" by (intro exI[of _ k]) (auto simp: reports_free_def)
    qed
    then show ?thesis by (simp add: unf a eq_commute)
  next
    assume a: "check_port_available nw h (s + int k) = Inr False"
    have "?R k = ?R (Suc k)"
    proof
      assume "?R k"
      then obtain i where i: "k \<le> i" "i < n" "p = s + int i" "reports_free nw h p"
        and occ: "\<forall>j. k \<le> j \<and> j < i \<longrightarrow> reports_occupied nw h (s + int j)" by blast
      have "i \<noteq> k" using i a by (auto simp: reports_free_def)
      with i have "Suc k \<le> i" by simp
      with i occ show "?R (Suc k)" by (intro exI[of _ i]) auto
    next
      assume "?R (Suc k)"
      then obtain i where i: "Suc k \<le> i" "i < n" "p = s + int i" "reports_free nw h p"
        and occ: "\<forall>j. Suc k \<le> j \<and> j < i \<longrightarrow> reports_occupied nw h (s + int j)" by blast
      have "\<forall>j. k \<le> j \<and> j < i \<longrightarrow> reports_occupied nw h (s + int j)"
      proof (intro allI impI)
        fix j assume j: "k \<le> j \<and> j < i"
        show "reports_occupied nw h (s + int j)"
        proof (cases "j = k")
          case True with a show ?thesis by (simp add: reports_occupied_def)
        next
          case False with j occ show ?thesis by simp
        qed
      qed
      with i show "?R k" by (intro exI[of _ i]) auto
    qed
    then show ?thesis by (simp add: unf a IH)
  next
    fix e assume a: "check_port_available nw h (s + int k) = Inl e"
    have "\<not> ?R k"
    proof
      assume "?R k"
      then obtain i where i: "k \<le> i" "p = s + int i" "reports_free nw h p"
        and occ: "\<forall>j. k \<le> j \<and> j < i \<longrightarrow> reports_occupied nw h (s + int j)" by blast
      show False
      proof (cases "i = k")
        case True with i a show False by (simp add: reports_free_def)
      next
        case False
        with i have "k < i" by simp
        with occ have "reports_occupied nw h (s + int k)" by simp
        with a show False by (simp add: reports_occupied_def)
      qed
    qed
    then show ?thesis by (simp add: unf a)
  qed
qed

lemma find_free_port_loop_None:
  "(find_free_port_loop nw h s xs = Inr None) = (\<forall>i\<in>set xs. reports_occupied nw h (s + int i))"
proof (induction xs)
  case Nil
  show ?case by simp
next
  case (Cons i xs)
  show ?case using check_port_available_cases[of nw h "s + int i"] Cons.IH
    by (auto simp: reports_occupied_def)
qed

text \<open>
  Claim C1. For every host, start port and number of attempts, the search returns the
  first port of \<open>start_port, start_port + 1, ..., start_port + max_attempts - 1\<close> that the
  probe reports free, and none exactly when the probe reports every port of the range
  occupied; from 8000 with 10 attempts it returns 8000 when 8000 is free and none when
  8000..8009 are all occupied.
\<close>

theorem find_free_port_first_free:
  "((find_free_port nw host start_port max_attempts = Inr (Some p)) =
      (\<exists>i<nat max_attempts. p = start_port + int i \<and> reports_free nw host p \<and>
         (\<forall>j<i. reports_occupied nw host (start_port + int j)))) \<and>
   ((find_free_port nw host start_port max_attempts = Inr None) =
      (\<forall>i<nat max_attempts. reports_occupied nw host (start_port + int i))) \<and>
   (reports_free nw host 8000 \<longrightarrow> find_free_port nw host 8000 10 = Inr (Some 8000)) \<and>
   ((\<forall>q\<in>{8000..8009}. reports_occupied nw host q) \<longrightarrow> find_free_port nw host 8000 10 = Inr None)"
proof (intro conjI impI)
  show some: "\<And>start_port max_attempts p. (find_free_port nw host start_port max_attempts = Inr (Some p)) =
      (\<exists>i<nat max_attempts. p = start_port + int i \<and> reports_free nw host p \<and>
         (\<forall>j<i. reports_occupied nw host (start_port + int j)))"
    unfolding find_free_port_def find_free_port_loop_Some by auto
  show none: "\<And>start_port max_attempts. (find_free_port nw host start_port max_attempts = Inr None) =
      (\<forall>i<nat max_attempts. reports_occupied nw host (start_port + int i))"
    unfolding find_free_port_def find_free_port_loop_None by auto
  show "find_free_port nw host 8000 10 = Inr (Some 8000)" if "reports_free nw host 8000"
    unfolding some using that by (intro exI[of _ 0]) simp
  show "find_free_port nw host 8000 10 = Inr None" if occ: "\<forall>q\<in>{8000..8009}. reports_occupied nw host q"
    unfolding none
  proof (intro allI impI)
    fix i :: nat assume "i < nat 10"
    then have "8000 + int i \<in> {8000..8009}" by simp
    with occ show "reports_occupied nw host (8000 + int i)" by blast
  qed
qed

lemma reports_listening:
  "reports_free (listening ps) h q = (q \<notin> set ps)"
  "reports_occupied (listening ps) h q = (q \<in> set ps)"
  by (simp_all add: reports_free_def reports_occupied_def check_port_available_def
        connect_probe_def listening_def)

theorem find_free_port_first_free_witness:
  "reports_occupied (listening [8000, 8001]) ''localhost'' 8000 \<and>
   reports_occupied (listening [8000, 8001]) ''localhost'' 8001 \<and>
   reports_free (listening [8000, 8001]) ''localhost'' 8002 \<and>
   find_free_port (listening [8000, 8001]) ''localhost'' 8000 10 = Inr (Some 8002) \<and>
   reports_free (listening []) ''localhost'' 8000 \<and>
   find_free_port (listening []) ''localhost'' 8000 10 = Inr (Some 8000) \<and>
   find_free_port (listening [8000, 8001, 8002, 8003, 8004, 8005, 8006, 8007, 8008, 8009])
     ''localhost'' 8000 10 = Inr None"
proof -
  let ?nw = "listening [8000, 8001]"
  let ?full = "listening [8000, 8001, 8002, 8003, 8004, 8005, 8006, 8007, 8008, 8009]"
  have "\<forall>j<2::nat. reports_occupied ?nw ''localhost'' (8000 + int j)"
    by (simp add: reports_listening numeral_2_eq_2 less_Suc_eq)
  then have "\<exists>i<nat 10. (8002::int) = 8000 + int i \<and> reports_free ?nw ''localhost'' 8002 \<and>
         (\<forall>j<i. reports_occupied ?nw ''localhost'' (8000 + int j))"
    by (intro exI[of _ 2]) (simp add: reports_listening)
  then have a: "find_free_port ?nw ''localhost'' 8000 10 = Inr (Some 8002)"
    using find_free_port_first_free[of ?nw "''localhost''" 8000 10 8002] by blast
  have b: "find_free_port (listening []) ''localhost'' 8000 10 = Inr (Some 8000)"
    using find_free_port_first_free[of "listening []" "''localhost''" 8000 10 8000]
    by (simp add: reports_listening)
  have "\<forall>q\<in>{8000..8009}. reports_occupied ?full ''localhost'' q"
  proof
    fix q :: int assume "q \<in> {8000..8009}"
    then have "q = 8000 \<or> q = 8001 \<or> q = 8002 \<or> q = 8003 \<or> q = 8004 \<or> q = 8005 \<or>
      q = 8006 \<or> q = 8007 \<or> q = 8008 \<or> q = 8009" by (simp only: atLeastAtMost_iff) arith
    then show "reports_occupied ?full ''localhost'' q" by (auto simp: reports_listening)
  qed
  then have c: "find_free_port ?full ''localhost'' 8000 10 = Inr None"
    using find_free_port_first_free[of ?full "''localhost''" 8000 10 8000] by blast
  show ?thesis using a b c by (simp add: reports_listening)
qed

text \<open>
  Claim C3. The probe answers false when the connection is established (\<open>connect_ex\<close>
  returns 0), true when \<open>connect_ex\<close> returns an errno (refused, timed out), and true
  whenever one of the socket calls raises an exception of class \<open>Exception\<close>.
\<close>

theorem check_port_available_policy:
  "(create_raises (nw host port) = None \<and> connect_result (nw host port) = Inr 0 \<and>
      close_raises (nw host port) = None
      \<longrightarrow> check_port_available nw host port = Inr False) \<and>
   (create_raises (nw host port) = None \<and> connect_result (nw host port) = Inr r \<and> r \<noteq> 0 \<and>
      close_raises (nw host port) = None
      \<longrightarrow> check_port_available nw host port = Inr True) \<and>
   (is_Exception e \<and>
      (create_raises (nw host port) = Some e \<or>
       create_raises (nw host port) = None \<and> connect_result (nw host port) = Inl e \<or>
       create_raises (nw host port) = None \<and> connect_result (nw host port) = Inr r \<and>
         close_raises (nw host port) = Some e)
      \<longrightarrow> check_port_available nw host port = Inr True)"
  by (auto simp: check_port_available_def connect_probe_def)

theorem check_port_available_policy_witness:
  "check_port_available (listening [8000]) ''localhost'' 8000 = Inr False \<and>
   check_port_available (listening [8000]) ''localhost'' 8001 = Inr True \<and>
   check_port_available (failing_create OSError) ''localhost'' 8000 = Inr True"
  using check_port_available_policy[of "listening [8000]" "''localhost''" 8000 0 OSError]
    check_port_available_policy[of "listening [8000]" "''localhost''" 8001 111 OSError]
    check_port_available_policy[of "failing_create OSError" "''localhost''" 8000 0 OSError]
  by (simp add: listening_def failing_create_def)

section \<open>The Port Reaper\<close>

subsection \<open>Lower case\<close>

lemma of_char_lower_char:
  "(of_char (lower_char c) :: nat) =
     (if (65 \<le> (of_char c :: nat) \<and> (of_char c :: nat) \<le> 90) \<or>
         (192 \<le> (of_char c :: nat) \<and> (of_char c :: nat) \<le> 222 \<and> (of_char c :: nat) \<noteq> 215)
      then of_char c + 32 else of_char c)"
proof -
  have "(of_char c :: nat) \<le> 222 \<Longrightarrow> ((of_char c :: nat) + 32) mod 256 = of_char c + 32"
    by simp
  then show ?thesis
    by (auto simp: lower_char_def Let_def)
qed

lemma lower_char_y: "(lower_char c = CHR ''y'') = (c = CHR ''y'' \<or> c = CHR ''Y'')"
proof -
  have y: "(of_char (CHR ''y'') :: nat) = 121" and Y: "(of_char (CHR ''Y'') :: nat) = 89"
    by simp_all
  have "(lower_char c = CHR ''y'') = ((of_char (lower_char c) :: nat) = 121)"
    using of_char_eq_iff[of "lower_char c" "CHR ''y''", where ?'a = nat] by (simp only: y)
  also have "\<dots> = ((of_char c :: nat) = 121 \<or> (of_char c :: nat) = 89)"
    by (auto simp: of_char_lower_char)
  also have "\<dots> = (c = CHR ''y'' \<or> c = CHR ''Y'')"
    using of_char_eq_iff[of c "CHR ''y''", where ?'a = nat]
      of_char_eq_iff[of c "CHR ''Y''", where ?'a = nat] by (simp only: y Y)
  finally show ?thesis .
qed

lemma py_lower_y: "(py_lower response = ''y'') = (response = ''y'' \<or> response = ''Y'')"
  by (cases response) (auto simp: py_lower_def lower_char_y)

subsection \<open>The run on the demonstration machine\<close>

lemma py_str_demo: "py_str 4242 = ''4242''" "py_str 8000 = ''8000''"
  by (simp_all add: py_str_def digits.simps digit_char_def)

lemma strip_lsof_output: "py_strip ''4242\<newline>'' = ''4242''"
  by (simp add: py_strip_def is_space_def)

lemma int_lsof_output: "py_int ''4242'' = Inr 4242"
  by (simp add: py_int_def is_int_space_def is_ascii_digit_def)

lemma demo_find_process: "find_process_on_port (demo_world args a) 8000 = ([Run [''lsof'', ''-ti'', '':8000'']], Inr (Some 4242))"
  by (simp add: find_process_on_port_def find_unix_def subprocess_run_def demo_world_def demo_shell_def py_str_demo strip_lsof_output int_lsof_output)

lemma demo_kill_process: "kill_process (demo_world args a) 4242 = ([Run [''kill'', ''-9'', ''4242'']], Inr True)"
  by (simp add: kill_process_def kill_command_def demo_world_def subprocess_run_def demo_shell_def py_str_demo)

lemma strip_ps_output: "py_strip ''python3 python3 -m http.server\<newline>'' = ''python3 python3 -m http.server''"
  by (simp add: py_strip_def is_space_def)

lemma split_ps_output: "py_split_ws1 ''python3 python3 -m http.server'' = [''python3'', ''python3 -m http.server'']"
  by (simp add: py_split_ws1_def is_space_def)

lemma demo_get_process_info: "get_process_info (demo_world args a) 4242 = ([Run [''ps'', ''-p'', ''4242'', ''-o'', ''comm='', ''-o'', ''args='']],
  Inr (Some \<lparr>info_name = ''python3'', info_pid = 4242, info_path = ''python3 -m http.server''\<rparr>))"
  by (simp add: get_process_info_def info_unix_def ps_command_def subprocess_run_def demo_world_def demo_shell_def py_str_demo strip_ps_output split_ps_output)

lemma demo_probe: "connect_probe (net_check (demo_world args a)) ''localhost'' 8000 = Inr 0"
  by (simp add: demo_world_def listening_def connect_probe_def)

subsection \<open>The events of the helpers\<close>

lemma runs_kill_command: "runs_kill (Run (kill_command system pid))"
  by (simp add: kill_command_def)

lemma find_process_events:
  "e \<in> set (fst (find_process_on_port w port)) \<Longrightarrow> \<not> runs_kill e \<and> e \<noteq> Read_input"
  by (auto simp: find_process_on_port_def split: sum.splits if_splits)

lemma get_process_info_events:
  "e \<in> set (fst (get_process_info w pid)) \<Longrightarrow> \<not> runs_kill e \<and> e \<noteq> Read_input"
  by (auto simp: get_process_info_def tasklist_command_def ps_command_def Let_def
      split: sum.splits if_splits)

lemma kill_process_cases:
  "kill_process w pid = ([Run (kill_command (platform_system w) pid)], Inr True) \<or>
   kill_process w pid = ([Run (kill_command (platform_system w) pid)], Inr False) \<or>
   (\<exists>e. kill_process w pid = ([Run (kill_command (platform_system w) pid), Print (Kill_error e)], Inr False)) \<or>
   (\<exists>e. kill_process w pid = ([Run (kill_command (platform_system w) pid)], Inl e))"
  by (auto simp: kill_process_def Let_def split: sum.splits)

lemma header_events: "e \<in> set (header port) \<Longrightarrow> \<not> runs_kill e \<and> e \<noteq> Read_input"
  by (auto simp: header_def)

lemma confirm_kill_iff:
  assumes "stdin_line w = Inr response"
  shows "list_ex runs_kill (fst (confirm_and_kill w pid)) = (py_lower response = ''y'')"
  using kill_process_cases[of w pid] assms
  by (auto simp: confirm_and_kill_def runs_kill_command)

subsection \<open>The confirmation\<close>

lemma main_confirm:
  assumes "port_argument w = Inr port"
    and "connect_probe (net_check w) ''localhost'' port = Inr 0"
    and "find_process_on_port w port = (ev1, Inr (Some pid))" and "pid \<noteq> 0"
    and "get_process_info w pid = (ev2, Inr (Some info))"
  shows "main w =
     (let pre = header port @ Print (Port_busy port) # ev1 @ ev2 @
                  [Print Found_process, Print (Show_pid (info_pid info)),
                   Print (Show_name (info_name info)), Print (Show_path (info_path info)),
                   Print Blank]
      in case confirm_and_kill w pid of
           (ev3, Returned) \<Rightarrow> (pre @ ev3 @ [Print Blank], Returned)
         | (ev3, out) \<Rightarrow> (pre @ ev3, out))"
  using assms
  by (simp add: main_def port_occupied_def Let_def split: prod.splits outcome.splits)

lemma confirm_cases:
  assumes "stdin_line w = Inr response"
  shows "confirm_and_kill w pid =
     (if py_lower response = ''y''
      then (case kill_process w pid of
               (evs, Inl e) \<Rightarrow> (Read_input # evs, Uncaught e)
             | (evs, Inr True) \<Rightarrow> (Read_input # evs @ [Print Killed], Returned)
             | (evs, Inr False) \<Rightarrow> (Read_input # evs @ [Print Kill_failed], Returned))
      else ([Read_input, Print Cancelled], Returned))"
  using assms by (simp add: confirm_and_kill_def)

text \<open>
  Claim C2, as amended. With the port occupied, a pid found and the process information
  retrieved, \<open>kill_process\<close> runs its command if and only if the answer, in lower case,
  is \<open>y\<close>: the answer is \<open>y\<close> or \<open>Y\<close>. Any other answer prints the cancellation and
  returns without running it.
\<close>

theorem confirmation_case_insensitive:
  assumes "port_argument w = Inr port"
    and "connect_probe (net_check w) ''localhost'' port = Inr 0"
    and "find_process_on_port w port = (ev1, Inr (Some pid))" and "pid \<noteq> 0"
    and "get_process_info w pid = (ev2, Inr (Some info))"
    and "stdin_line w = Inr response"
  shows "list_ex runs_kill (fst (main w)) = (response = ''y'' \<or> response = ''Y'') \<and>
     (response = ''y'' \<or> response = ''Y'' \<longrightarrow>
        Run (kill_command (platform_system w) pid) \<in> set (fst (main w))) \<and>
     (response \<noteq> ''y'' \<and> response \<noteq> ''Y'' \<longrightarrow>
        snd (main w) = Returned \<and>
        (\<exists>evs. fst (main w) = evs @ [Read_input, Print Cancelled, Print Blank]))"
proof -
  note m = main_confirm[OF assms(1-5)]
  have e1: "\<forall>e\<in>set ev1. \<not> runs_kill e" using find_process_events[of _ w port] assms(3) by auto
  have e2: "\<forall>e\<in>set ev2. \<not> runs_kill e" using get_process_info_events[of _ w pid] assms(5) by auto
  have h: "\<forall>e\<in>set (header port). \<not> runs_kill e" by (simp add: header_def)
  show ?thesis
  proof (cases "py_lower response = ''y''")
    case True
    then have r: "response = ''y'' \<or> response = ''Y''" by (simp add: py_lower_y)
    show ?thesis
      using kill_process_cases[of w pid] r True e1 e2 h
      by (auto simp: m confirm_cases[OF assms(6)] Let_def list_ex_iff runs_kill_command)
  next
    case False
    then have r: "response \<noteq> ''y'' \<and> response \<noteq> ''Y''" by (simp add: py_lower_y)
    show ?thesis
      using r False e1 e2 h
      by (auto simp: m confirm_cases[OF assms(6)] Let_def list_ex_iff)
  qed
qed

lemma demo_port_argument: "port_argument (demo_world [] a) = Inr 8000"
  by (simp add: port_argument_def demo_world_def)

lemma demo_stdin: "stdin_line (demo_world args a) = Inr a"
  by (simp add: demo_world_def)

lemma demo_system: "platform_system (demo_world args a) = ''Linux''"
  by (simp add: demo_world_def)

lemma demo_kill_command: "kill_command (platform_system (demo_world args a)) 4242 = [''kill'', ''-9'', ''4242'']"
  by (simp add: demo_system kill_command_def py_str_demo)

theorem confirmation_case_insensitive_witness:
  "list_ex runs_kill (fst (main (demo_world [] ''Y''))) \<and>
   Run [''kill'', ''-9'', ''4242''] \<in> set (fst (main (demo_world [] ''Y''))) \<and>
   list_ex runs_kill (fst (main (demo_world [] ''y''))) \<and>
   \<not> list_ex runs_kill (fst (main (demo_world [] ''yes''))) \<and>
   snd (main (demo_world [] ''yes'')) = Returned"
  using confirmation_case_insensitive[OF demo_port_argument demo_probe demo_find_process _ demo_get_process_info demo_stdin, of "''Y''"]
    confirmation_case_insensitive[OF demo_port_argument demo_probe demo_find_process _ demo_get_process_info demo_stdin, of "''y''"]
    confirmation_case_insensitive[OF demo_port_argument demo_probe demo_find_process _ demo_get_process_info demo_stdin, of "''yes''"]
  by (simp add: demo_kill_command)

lemma demo_main:
  "main (demo_world [] a) =
     (header 8000 @
      [Print (Port_busy 8000), Run [''lsof'', ''-ti'', '':8000''],
       Run [''ps'', ''-p'', ''4242'', ''-o'', ''comm='', ''-o'', ''args=''],
       Print Found_process, Print (Show_pid 4242), Print (Show_name ''python3''),
       Print (Show_path ''python3 -m http.server''), Print Blank, Read_input] @
      (if py_lower a = ''y'' then [Run [''kill'', ''-9'', ''4242''], Print Killed]
       else [Print Cancelled]) @
      [Print Blank],
      Returned)"
  by (simp add: main_confirm[OF demo_port_argument demo_probe demo_find_process _ demo_get_process_info] confirm_cases[OF demo_stdin] demo_kill_process)

text \<open>
  The claim as stated (only the exact token \<open>y\<close> proceeds) fails: the answer \<open>Y\<close> is
  not that token, and the process is killed.
\<close>

theorem exact_token_counterexample:
  "connect_probe (net_check (demo_world [] ''Y'')) ''localhost'' 8000 = Inr 0 \<and>
   snd (find_process_on_port (demo_world [] ''Y'') 8000) = Inr (Some 4242) \<and>
   snd (get_process_info (demo_world [] ''Y'') 4242) =
     Inr (Some \<lparr>info_name = ''python3'', info_pid = 4242, info_path = ''python3 -m http.server''\<rparr>) \<and>
   stdin_line (demo_world [] ''Y'') = Inr ''Y'' \<and> ''Y'' \<noteq> ''y'' \<and>
   Run [''kill'', ''-9'', ''4242''] \<in> set (fst (main (demo_world [] ''Y'')))"
  by (simp add: demo_probe demo_find_process demo_get_process_info demo_stdin demo_main py_lower_y)

subsection \<open>What the helpers can raise\<close>











lemma demo_shell_simps:
  "shell (demo_world args a) = demo_shell"
  "shell no_ps_world = (\<lambda>cmd. if take 1 cmd = [''ps''] then Completed 1 [] else demo_shell cmd)"
  "shell denied_world = (\<lambda>cmd. Raised PermissionError)"
  "shell hung_world = (\<lambda>cmd. Hangs)"
  "platform_system no_ps_world = ''Linux''"
  "platform_system denied_world = ''Linux''"
  "platform_system hung_world = ''Linux''"
  by (simp_all add: demo_world_def no_ps_world_def denied_world_def hung_world_def)


subsection \<open>No process information, no termination\<close>

lemma main_no_info:
  assumes "port_argument w = Inr port"
    and "connect_probe (net_check w) ''localhost'' port = Inr 0"
    and "find_process_on_port w port = (ev1, Inr (Some pid))" and "pid \<noteq> 0"
    and "get_process_info w pid = (ev2, Inr None)"
  shows "main w =
     (header port @ Print (Port_busy port) # ev1 @ ev2 @ [Print (No_info pid), Print Blank],
      Returned)"
  using assms by (simp add: main_def port_occupied_def)

lemma port_occupied_kill:
  assumes "list_ex runs_kill (fst (port_occupied w port))"
  shows "\<exists>pid. snd (find_process_on_port w port) = Inr (Some pid) \<and> pid \<noteq> 0 \<and>
           (\<exists>info. snd (get_process_info w pid) = Inr (Some info))"
proof -
  obtain ev1 r1 where f: "find_process_on_port w port = (ev1, r1)" by (cases "find_process_on_port w port")
  have e1: "\<forall>e\<in>set ev1. \<not> runs_kill e" using find_process_events[of _ w port] f by auto
  show ?thesis
  proof (cases r1)
    case (Inl e)
    with assms f e1 show ?thesis by (auto simp: port_occupied_def list_ex_iff)
  next
    case (Inr po)
    show ?thesis
    proof (cases po)
      case None
      with assms f e1 Inr show ?thesis by (auto simp: port_occupied_def list_ex_iff)
    next
      case (Some pid)
      show ?thesis
      proof (cases "pid = 0")
        case True
        with assms f e1 Inr Some show ?thesis by (auto simp: port_occupied_def list_ex_iff)
      next
        case False
        obtain ev2 r2 where g: "get_process_info w pid = (ev2, r2)" by (cases "get_process_info w pid")
        have e2: "\<forall>e\<in>set ev2. \<not> runs_kill e" using get_process_info_events[of _ w pid] g by auto
        have "\<exists>info. r2 = Inr (Some info)"
        proof (cases r2)
          case (Inl e)
          with assms f e1 Inr Some False g e2 show ?thesis by (auto simp: port_occupied_def list_ex_iff)
        next
          case r: (Inr io)
          with assms f e1 Inr Some False g e2 show ?thesis
            by (cases io) (auto simp: port_occupied_def list_ex_iff)
        qed
        with f Inr Some False g show ?thesis by auto
      qed
    qed
  qed
qed

lemma main_kill:
  assumes "list_ex runs_kill (fst (main w))"
  shows "\<exists>port. port_argument w = Inr port \<and> list_ex runs_kill (fst (port_occupied w port))"
  using assms
  by (auto simp: main_def header_def list_ex_iff split: sum.splits if_splits prod.splits outcome.splits)

text \<open>
  Claim C9. When a pid is found on the port and \<open>get_process_info\<close> returns none, the run
  reports the pid and returns: no prompt, no termination command. And whenever a run
  starts a termination command, \<open>get_process_info\<close> had returned a record.
\<close>

theorem no_info_no_kill:
  "(port_argument w = Inr port \<and> connect_probe (net_check w) ''localhost'' port = Inr 0 \<and>
    find_process_on_port w port = (ev1, Inr (Some pid)) \<and> pid \<noteq> 0 \<and>
    get_process_info w pid = (ev2, Inr None)
    \<longrightarrow> main w =
          (header port @ Print (Port_busy port) # ev1 @ ev2 @ [Print (No_info pid), Print Blank],
           Returned) \<and>
        \<not> list_ex runs_kill (fst (main w)) \<and> Read_input \<notin> set (fst (main w))) \<and>
   (list_ex runs_kill (fst (main w))
    \<longrightarrow> (\<exists>port pid info. port_argument w = Inr port \<and>
           snd (find_process_on_port w port) = Inr (Some pid) \<and> pid \<noteq> 0 \<and>
           snd (get_process_info w pid) = Inr (Some info)))"
proof (intro conjI impI)
  assume a: "port_argument w = Inr port \<and> connect_probe (net_check w) ''localhost'' port = Inr 0 \<and>
    find_process_on_port w port = (ev1, Inr (Some pid)) \<and> pid \<noteq> 0 \<and>
    get_process_info w pid = (ev2, Inr None)"
  then show m: "main w =
          (header port @ Print (Port_busy port) # ev1 @ ev2 @ [Print (No_info pid), Print Blank],
           Returned)"
    by (intro main_no_info) simp_all
  have e1: "\<forall>e\<in>set ev1. \<not> runs_kill e \<and> e \<noteq> Read_input"
    using find_process_events[of _ w port] a by auto
  have e2: "\<forall>e\<in>set ev2. \<not> runs_kill e \<and> e \<noteq> Read_input"
    using get_process_info_events[of _ w pid] a by auto
  show "\<not> list_ex runs_kill (fst (main w))"
    using e1 e2 by (auto simp: m header_def list_ex_iff)
  show "Read_input \<notin> set (fst (main w))"
    using e1 e2 by (auto simp: m header_def)
next
  assume "list_ex runs_kill (fst (main w))"
  then obtain port where p: "port_argument w = Inr port"
    and k: "list_ex runs_kill (fst (port_occupied w port))"
    using main_kill by blast
  from port_occupied_kill[OF k] p
  show "\<exists>port pid info. port_argument w = Inr port \<and>
           snd (find_process_on_port w port) = Inr (Some pid) \<and> pid \<noteq> 0 \<and>
           snd (get_process_info w pid) = Inr (Some info)"
    by blast
qed

lemma no_ps_facts:
  "port_argument no_ps_world = Inr 8000"
  "connect_probe (net_check no_ps_world) ''localhost'' 8000 = Inr 0"
  "find_process_on_port no_ps_world 8000 = ([Run [''lsof'', ''-ti'', '':8000'']], Inr (Some 4242))"
  "get_process_info no_ps_world 4242 =
     ([Run [''ps'', ''-p'', ''4242'', ''-o'', ''comm='', ''-o'', ''args='']], Inr None)"
     apply (simp add: port_argument_def no_ps_world_def demo_world_def)
    apply (simp add: no_ps_world_def demo_world_def listening_def connect_probe_def)
   apply (simp add: find_process_on_port_def find_unix_def subprocess_run_def demo_shell_simps
      demo_shell_def py_str_demo strip_lsof_output int_lsof_output)
  apply (simp add: get_process_info_def info_unix_def ps_command_def subprocess_run_def
      demo_shell_simps py_str_demo)
  done

theorem no_info_no_kill_witness:
  "main no_ps_world =
     (header 8000 @
      [Print (Port_busy 8000), Run [''lsof'', ''-ti'', '':8000''],
       Run [''ps'', ''-p'', ''4242'', ''-o'', ''comm='', ''-o'', ''args=''],
       Print (No_info 4242), Print Blank],
      Returned) \<and>
   \<not> list_ex runs_kill (fst (main no_ps_world)) \<and>
   Read_input \<notin> set (fst (main no_ps_world)) \<and>
   list_ex runs_kill (fst (main (demo_world [] ''y''))) \<and>
   (\<exists>port pid info. port_argument (demo_world [] ''y'') = Inr port \<and>
      snd (find_process_on_port (demo_world [] ''y'') port) = Inr (Some pid) \<and> pid \<noteq> 0 \<and>
      snd (get_process_info (demo_world [] ''y'') pid) = Inr (Some info))"
proof -
  have k: "list_ex runs_kill (fst (main (demo_world [] ''y'')))"
    by (simp add: demo_main py_lower_y header_def)
  from no_info_no_kill[of no_ps_world 8000 "[Run [''lsof'', ''-ti'', '':8000'']]" 4242
      "[Run [''ps'', ''-p'', ''4242'', ''-o'', ''comm='', ''-o'', ''args='']]"]
  have a: "main no_ps_world =
     (header 8000 @
      [Print (Port_busy 8000), Run [''lsof'', ''-ti'', '':8000''],
       Run [''ps'', ''-p'', ''4242'', ''-o'', ''comm='', ''-o'', ''args=''],
       Print (No_info 4242), Print Blank],
      Returned) \<and>
   \<not> list_ex runs_kill (fst (main no_ps_world)) \<and>
   Read_input \<notin> set (fst (main no_ps_world))"
    by (simp add: no_ps_facts header_def)
  from no_info_no_kill[of "demo_world [] ''y''" 8000 "[]" 0 "[]"] k
  have b: "\<exists>port pid info. port_argument (demo_world [] ''y'') = Inr port \<and>
      snd (find_process_on_port (demo_world [] ''y'') port) = Inr (Some pid) \<and> pid \<noteq> 0 \<and>
      snd (get_process_info (demo_world [] ''y'') pid) = Inr (Some info)"
    by blast
  from a b k show ?thesis by blast
qed








section \<open>The security headers\<close>









section \<open>The built-in launcher uses one port\<close>

lemma find_free_port_ge:
  assumes "find_free_port nw host start_port max_attempts = Inr (Some p)"
  shows "start_port \<le> p"
  using assms unfolding find_free_port_def find_free_port_loop_Some by auto

lemma truthy_search:
  assumes "find_free_port nw host DEFAULT_PORT n = Inr r"
  shows "truthy r = r"
proof (cases r)
  case None
  then show ?thesis by (simp add: truthy_def)
next
  case (Some p)
  with assms have "DEFAULT_PORT \<le> p" using find_free_port_ge by blast
  with Some show ?thesis by (simp add: truthy_def DEFAULT_PORT_def)
qed

lemma serve_builtin_ports:
  "e \<in> set (run_events (serve_builtin w sofar port)) \<Longrightarrow> p \<in> set (ports_of e) \<Longrightarrow>
     p = port \<or> (\<exists>e'\<in>set sofar. p \<in> set (ports_of e'))"
  by (auto simp: serve_builtin_def print_header_py_def Let_def split: option.splits if_splits)

lemma serve_builtin_bound:
  assumes "bind_result w HOST port = None"
  shows "Print (Address HOST port) \<in> set (run_events (serve_builtin w sofar port)) \<and>
     Bind HOST port CustomHTTPRequestHandler \<in> set (run_events (serve_builtin w sofar port)) \<and>
     Start_browser_thread port \<in> set (run_events (serve_builtin w sofar port)) \<and>
     Print (Server_started HOST port) \<in> set (run_events (serve_builtin w sofar port)) \<and>
     run_PORT (serve_builtin w sofar port) = port"
  using assms by (auto simp: serve_builtin_def print_header_py_def Let_def split: option.splits)

text \<open>
  Claim C10. In a run of the built-in launcher every port that appears in the banner, in the
  bind, in the browser thread and in the start message is the resolved port: the default
  port when the probe reports it free, otherwise the result of the free-port search. When
  the server binds, all four appear, and \<^verbatim>\<open>PORT\<close> holds the same value.
\<close>

theorem builtin_single_port:
  "(\<forall>e\<in>set (run_events (start_server_py w)). \<forall>p\<in>set (ports_of e). resolved_port w = Some p) \<and>
   (resolved_port w = Some port \<and> bind_result w HOST port = None \<longrightarrow>
      Print (Address HOST port) \<in> set (run_events (start_server_py w)) \<and>
      Bind HOST port CustomHTTPRequestHandler \<in> set (run_events (start_server_py w)) \<and>
      Start_browser_thread port \<in> set (run_events (start_server_py w)) \<and>
      Print (Server_started HOST port) \<in> set (run_events (start_server_py w)) \<and>
      run_PORT (start_server_py w) = port)"
proof (intro conjI ballI impI)
  fix e p
  assume e: "e \<in> set (run_events (start_server_py w))" and p: "p \<in> set (ports_of e)"
  show "resolved_port w = Some p"
  proof (cases "check_port_available (net_check w) HOST DEFAULT_PORT")
    case (Inl x)
    with e p show ?thesis by (auto simp: start_server_py_def)
  next
    case (Inr free)
    show ?thesis
    proof (cases free)
      case True
      with Inr e p serve_builtin_ports[of e w "[Chdir]" DEFAULT_PORT p]
      show ?thesis by (auto simp: start_server_py_def resolved_port_def)
    next
      case False
      show ?thesis
      proof (cases "find_free_port (net_search w) HOST DEFAULT_PORT 10")
        case (Inl x)
        with Inr False e p show ?thesis by (auto simp: start_server_py_def)
      next
        case r: (Inr r)
        note t = truthy_search[OF r]
        show ?thesis
        proof (cases r)
          case None
          with Inr False r t e p show ?thesis by (auto simp: start_server_py_def)
        next
          case (Some q)
          with Inr False r t e p
            serve_builtin_ports[of e w "[Chdir, Print (Port_taken DEFAULT_PORT), Print Searching_free,
                       Print (Found_free q)]" q p]
          show ?thesis by (auto simp: start_server_py_def resolved_port_def)
        qed
      qed
    qed
  qed
next
  assume a: "resolved_port w = Some port \<and> bind_result w HOST port = None"
  then have b: "bind_result w HOST port = None" by simp
  have "\<exists>sofar. start_server_py w = serve_builtin w sofar port"
  proof (cases "check_port_available (net_check w) HOST DEFAULT_PORT")
    case (Inl x)
    with a show ?thesis by (simp add: resolved_port_def)
  next
    case (Inr free)
    show ?thesis
    proof (cases free)
      case True
      with Inr a show ?thesis by (auto simp: start_server_py_def resolved_port_def)
    next
      case False
      with Inr a obtain r where r: "find_free_port (net_search w) HOST DEFAULT_PORT 10 = Inr r"
        and rp: "r = Some port"
        by (auto simp: resolved_port_def split: sum.splits option.splits)
      from truthy_search[OF r] Inr False r rp show ?thesis
        by (auto simp: start_server_py_def)
    qed
  qed
  then obtain sofar where s: "start_server_py w = serve_builtin w sofar port" by blast
  from serve_builtin_bound[OF b, of sofar]
  show "Print (Address HOST port) \<in> set (run_events (start_server_py w))"
    "Bind HOST port CustomHTTPRequestHandler \<in> set (run_events (start_server_py w))"
    "Start_browser_thread port \<in> set (run_events (start_server_py w))"
    "Print (Server_started HOST port) \<in> set (run_events (start_server_py w))"
    "run_PORT (start_server_py w) = port"
    by (simp_all add: s)
qed

lemma search_from_8000:
  "find_free_port (listening [8000]) host 8000 10 = Inr (Some 8001)"
proof -
  have "\<exists>i\<ge>0. i < nat 10 \<and> (8001::int) = 8000 + int i \<and> reports_free (listening [8000]) host 8001 \<and>
        (\<forall>j. 0 \<le> j \<and> j < i \<longrightarrow> reports_occupied (listening [8000]) host (8000 + int j))"
    by (intro exI[of _ 1]) (simp add: reports_listening)
  then show ?thesis unfolding find_free_port_def find_free_port_loop_Some .
qed

lemma launch_world_simps:
  "net_check (launch_world busy served env) = listening busy"
  "net_search (launch_world busy served env) = listening busy"
  "shell (launch_world busy served env) = node_shell served"
  "environ (launch_world busy served env) = env"
  "bind_result (launch_world busy served env) = (\<lambda>host port. None)"
  "serve_forever_ends (launch_world busy served env) = Some KeyboardInterrupt"
  by (simp_all add: launch_world_def)

lemma check_listening:
  "check_port_available (listening ps) h q = Inr (q \<notin> set ps)"
  by (simp add: check_port_available_def connect_probe_def listening_def)

lemma resolved_8001: "resolved_port (launch_world [8000] served env) = Some 8001"
  by (simp add: resolved_port_def launch_world_simps check_listening DEFAULT_PORT_def HOST_def
      search_from_8000)

theorem builtin_single_port_witness:
  "resolved_port (launch_world [8000] Hangs Map.empty) = Some 8001 \<and>
   Print (Address ''localhost'' 8001) \<in> set (run_events (start_server_py (launch_world [8000] Hangs Map.empty))) \<and>
   Bind ''localhost'' 8001 CustomHTTPRequestHandler \<in> set (run_events (start_server_py (launch_world [8000] Hangs Map.empty))) \<and>
   Start_browser_thread 8001 \<in> set (run_events (start_server_py (launch_world [8000] Hangs Map.empty))) \<and>
   run_PORT (start_server_py (launch_world [8000] Hangs Map.empty)) = 8001 \<and>
   Bind ''localhost'' 8000 CustomHTTPRequestHandler \<notin> set (run_events (start_server_py (launch_world [8000] Hangs Map.empty)))"
proof -
  let ?w = "launch_world [8000] Hangs Map.empty"
  note t = builtin_single_port[of ?w 8001]
  have r: "resolved_port ?w = Some 8001" by (rule resolved_8001)
  have b: "bind_result ?w HOST 8001 = None" by (simp add: launch_world_simps)
  from t r b have pos: "Print (Address HOST 8001) \<in> set (run_events (start_server_py ?w)) \<and>
      Bind HOST 8001 CustomHTTPRequestHandler \<in> set (run_events (start_server_py ?w)) \<and>
      Start_browser_thread 8001 \<in> set (run_events (start_server_py ?w)) \<and>
      run_PORT (start_server_py ?w) = 8001" by blast
  have neg: "Bind ''localhost'' 8000 CustomHTTPRequestHandler \<notin> set (run_events (start_server_py ?w))"
  proof
    assume "Bind ''localhost'' 8000 CustomHTTPRequestHandler \<in> set (run_events (start_server_py ?w))"
    moreover have "8000 \<in> set (ports_of (Bind ''localhost'' 8000 CustomHTTPRequestHandler))" by simp
    ultimately have "resolved_port ?w = Some 8000" using t by blast
    with r show False by simp
  qed
  from r pos neg show ?thesis by (simp add: HOST_def)
qed

section \<open>The launcher that runs npx http-server\<close>

subsection \<open>Exit status\<close>

lemma check_node_cases:
  "(\<exists>ev. check_node_installed w = (ev, Inr True)) \<or>
   (\<exists>ev. check_node_installed w = (ev, Inr False)) \<or>
   (\<exists>ev e. check_node_installed w = (ev, Inl e))"
  by (auto simp: check_node_installed_def split: sum.splits)

lemma check_node_iff:
  "(snd (check_node_installed w) = Inr False) = node_fails w"
  "(snd (check_node_installed w) = Inr True) = node_ok w"
  by (auto simp: check_node_installed_def subprocess_run_def node_fails_def node_ok_def
      split: run_result.splits)

lemma node_ok_events:
  assumes "node_ok w"
  shows "\<exists>out. shell w [''node'', ''--version''] = Completed 0 out \<and>
           check_node_installed w =
             ([Run [''node'', ''--version''], Print (Node_version (py_strip out))], Inr True)"
  using assms
  by (auto simp: check_node_installed_def subprocess_run_def node_ok_def split: run_result.splits)

lemma serve_npx_events:
  "\<exists>tail. run_events (serve_npx w sofar env port) =
            sofar @ print_header port @
            [Print Starting, Print Blank, Start_browser_thread port, Run (npx_command port)] @ tail \<and>
          (tail = [] \<or> tail = [Print (Server_error CalledProcessError)] \<or>
           tail = [Print Stopped_by_user])"
  by (auto simp: serve_npx_def Let_def split: run_result.splits)

lemma serve_npx_outcome:
  "run_outcome (serve_npx w sofar env port) =
     (case shell w (npx_command port) of
        Completed returncode out \<Rightarrow> if returncode \<noteq> 0 then Exit 1 else Returned
      | Raised e \<Rightarrow>
          if e = CalledProcessError then Exit 1
          else if e = KeyboardInterrupt then Exit 0 else Uncaught e
      | Hangs \<Rightarrow> Runs_on)"
  by (simp add: serve_npx_def Let_def split: run_result.splits)

lemma serve_npx_fields:
  "run_environ (serve_npx w sofar env port) = env"
  "run_PORT (serve_npx w sofar env port) = port"
  "Run (npx_command port) \<in> set (run_events (serve_npx w sofar env port))"
  "set sofar \<subseteq> set (run_events (serve_npx w sofar env port))"
  by (auto simp: serve_npx_def Let_def split: run_result.splits)

lemma start_server_resolved:
  assumes "snd (check_node_installed w) = Inr True" and "resolved_port w = Some p"
  shows "\<exists>sofar env. start_server w = serve_npx w sofar env p"
proof -
  obtain ev where n: "check_node_installed w = (ev, Inr True)"
    using assms(1) by (cases "check_node_installed w") auto
  show ?thesis
  proof (cases "check_port_available (net_check w) HOST DEFAULT_PORT")
    case (Inl x)
    with assms(2) show ?thesis by (simp add: resolved_port_def)
  next
    case (Inr free)
    show ?thesis
    proof (cases free)
      case True
      with Inr assms(2) n show ?thesis by (auto simp: start_server_def resolved_port_def)
    next
      case False
      with Inr assms(2) obtain r where r: "find_free_port (net_search w) HOST DEFAULT_PORT 10 = Inr r"
        and rp: "r = Some p"
        by (auto simp: resolved_port_def split: sum.splits option.splits)
      from truthy_search[OF r] Inr False r rp n show ?thesis
        by (auto simp: start_server_def)
    qed
  qed
qed

lemma start_server_unresolved:
  assumes "snd (check_node_installed w) = Inr True" and "resolved_port w = None"
  shows "(run_outcome (start_server w) = Exit 1) =
           (reports_occupied (net_check w) HOST DEFAULT_PORT \<and>
            find_free_port (net_search w) HOST DEFAULT_PORT 10 = Inr None)"
    and "run_outcome (start_server w) \<noteq> Exit 0"
    and "run_outcome (start_server w) = Exit n \<Longrightarrow> n = 1"
proof -
  obtain ev where n: "check_node_installed w = (ev, Inr True)"
    using assms(1) by (cases "check_node_installed w") auto
  have "(run_outcome (start_server w) = Exit 1) =
           (reports_occupied (net_check w) HOST DEFAULT_PORT \<and>
            find_free_port (net_search w) HOST DEFAULT_PORT 10 = Inr None) \<and>
     run_outcome (start_server w) \<noteq> Exit 0 \<and> (run_outcome (start_server w) = Exit n \<longrightarrow> n = 1)"
  proof (cases "check_port_available (net_check w) HOST DEFAULT_PORT")
    case (Inl x)
    with n show ?thesis by (simp add: start_server_def reports_occupied_def)
  next
    case (Inr free)
    show ?thesis
    proof (cases free)
      case True
      with Inr assms(2) show ?thesis by (simp add: resolved_port_def)
    next
      case False
      show ?thesis
      proof (cases "find_free_port (net_search w) HOST DEFAULT_PORT 10")
        case (Inl x)
        with Inr False n show ?thesis by (simp add: start_server_def reports_occupied_def)
      next
        case r: (Inr r)
        with Inr False assms(2) have "r = None"
          by (auto simp: resolved_port_def split: option.splits)
        with r Inr False n show ?thesis
          by (simp add: start_server_def reports_occupied_def truthy_def)
      qed
    qed
  qed
  then show "(run_outcome (start_server w) = Exit 1) =
           (reports_occupied (net_check w) HOST DEFAULT_PORT \<and>
            find_free_port (net_search w) HOST DEFAULT_PORT 10 = Inr None)"
    and "run_outcome (start_server w) \<noteq> Exit 0"
    and "run_outcome (start_server w) = Exit n \<Longrightarrow> n = 1"
    by blast+
qed

lemma start_server_no_node:
  assumes "snd (check_node_installed w) \<noteq> Inr True"
  shows "(run_outcome (start_server w) = Exit 1) = (snd (check_node_installed w) = Inr False)"
    and "run_outcome (start_server w) \<noteq> Exit 0"
    and "run_outcome (start_server w) = Exit n \<Longrightarrow> n = 1"
  using check_node_cases[of w] assms
  by (auto simp: start_server_def)

lemma resolved_search_none:
  assumes "reports_occupied (net_check w) HOST DEFAULT_PORT"
    and "find_free_port (net_search w) HOST DEFAULT_PORT 10 = Inr None"
  shows "resolved_port w = None"
  using assms by (simp add: resolved_port_def reports_occupied_def)

lemma start_server_exit_cases:
  "(run_outcome (start_server w) = Exit 1) =
     (snd (check_node_installed w) = Inr False \<or>
      snd (check_node_installed w) = Inr True \<and>
        (reports_occupied (net_check w) HOST DEFAULT_PORT \<and>
           find_free_port (net_search w) HOST DEFAULT_PORT 10 = Inr None \<or>
         (\<exists>p. resolved_port w = Some p \<and> server_failed w p))) \<and>
   (run_outcome (start_server w) = Exit 0) =
     (snd (check_node_installed w) = Inr True \<and>
      (\<exists>p. resolved_port w = Some p \<and> shell w (npx_command p) = Raised KeyboardInterrupt)) \<and>
   (run_outcome (start_server w) = Exit n \<longrightarrow> n = 0 \<or> n = 1)"
proof (cases "snd (check_node_installed w) = Inr True")
  case False
  from start_server_no_node[OF False] False show ?thesis by auto
next
  case True
  show ?thesis
  proof (cases "resolved_port w")
    case None
    from start_server_unresolved[OF True None] True None show ?thesis by auto
  next
    case (Some p)
    then obtain sofar env where s: "start_server w = serve_npx w sofar env p"
      using start_server_resolved[OF True] by blast
    have nn: "\<not> (reports_occupied (net_check w) HOST DEFAULT_PORT \<and>
           find_free_port (net_search w) HOST DEFAULT_PORT 10 = Inr None)"
      using resolved_search_none[of w] Some by auto
    show ?thesis
      using True Some nn
      by (auto simp: s serve_npx_outcome server_failed_def split: run_result.splits if_splits)
  qed
qed

text \<open>
  Claim C7, as amended. The Node.js check fails when \<^verbatim>\<open>node --version\<close> cannot be started
  because the program is missing, does not end within the timeout, or ends with a return
  code other than 0, and it succeeds exactly when the command ends with return code 0.
  The launcher calls \<^verbatim>\<open>sys.exit(1)\<close> exactly when the Node.js check fails, or the check
  succeeds and either the default port is occupied and the free-port search returns none,
  or the server command fails; it calls \<^verbatim>\<open>sys.exit(0)\<close> exactly when the check succeeds
  and the server command is interrupted from the keyboard; it exits with no other status.
  The result of \<^verbatim>\<open>check_node_installed\<close> is false exactly when the check fails in that
  sense, and true exactly when it succeeds.
\<close>

theorem start_server_exit_status:
  "(run_outcome (start_server w) = Exit 1) =
     (node_fails w \<or>
      node_ok w \<and>
        (reports_occupied (net_check w) HOST DEFAULT_PORT \<and>
           find_free_port (net_search w) HOST DEFAULT_PORT 10 = Inr None \<or>
         (\<exists>p. resolved_port w = Some p \<and> server_failed w p))) \<and>
   (run_outcome (start_server w) = Exit 0) =
     (node_ok w \<and>
      (\<exists>p. resolved_port w = Some p \<and> shell w (npx_command p) = Raised KeyboardInterrupt)) \<and>
   (run_outcome (start_server w) = Exit n \<longrightarrow> n = 0 \<or> n = 1) \<and>
   node_fails w = (snd (check_node_installed w) = Inr False) \<and>
   node_ok w = (snd (check_node_installed w) = Inr True)"
  using start_server_exit_cases[of w n] by (simp add: check_node_iff)

lemma launch_node: "snd (check_node_installed (launch_world busy served env)) = Inr True"
  by (simp add: check_node_installed_def subprocess_run_def launch_world_simps node_shell_def)

lemma launch_npx: "shell (launch_world busy served env) (npx_command p) = served"
  by (simp add: launch_world_simps node_shell_def npx_command_def)

lemma launch_node_ok: "node_ok (launch_world busy served env)"
  by (simp add: node_ok_def launch_world_simps node_shell_def)

lemma demo_node_fails: "node_fails (demo_world args a)"
  by (simp add: node_fails_def demo_shell_simps demo_shell_def)

lemma search_free: "find_free_port (listening []) host 8000 10 = Inr (Some 8000)"
proof -
  have "\<exists>i\<ge>0. i < nat 10 \<and> (8000::int) = 8000 + int i \<and> reports_free (listening []) host 8000 \<and>
        (\<forall>j. 0 \<le> j \<and> j < i \<longrightarrow> reports_occupied (listening []) host (8000 + int j))"
    by (intro exI[of _ 0]) (simp add: reports_listening)
  then show ?thesis unfolding find_free_port_def find_free_port_loop_Some .
qed

lemma search_full:
  "find_free_port (listening [8000, 8001, 8002, 8003, 8004, 8005, 8006, 8007, 8008, 8009]) host 8000 10 = Inr None"
proof -
  let ?full = "listening [8000, 8001, 8002, 8003, 8004, 8005, 8006, 8007, 8008, 8009]"
  have "reports_occupied ?full host (8000 + int i)" if "i \<in> set [0..<nat 10]" for i
  proof -
    from that have "i < 10" by simp
    then have "i = 0 \<or> i = 1 \<or> i = 2 \<or> i = 3 \<or> i = 4 \<or> i = 5 \<or> i = 6 \<or> i = 7 \<or> i = 8 \<or> i = 9"
      by arith
    then show ?thesis by (auto simp: reports_listening)
  qed
  then show ?thesis unfolding find_free_port_def find_free_port_loop_None by blast
qed

lemma resolved_free: "resolved_port (launch_world [] served env) = Some 8000"
  by (simp add: resolved_port_def launch_world_simps check_listening DEFAULT_PORT_def)

lemma resolved_full:
  "reports_occupied (net_check (launch_world [8000, 8001, 8002, 8003, 8004, 8005, 8006, 8007, 8008, 8009] served env)) HOST DEFAULT_PORT"
  "find_free_port (net_search (launch_world [8000, 8001, 8002, 8003, 8004, 8005, 8006, 8007, 8008, 8009] served env)) HOST DEFAULT_PORT 10 = Inr None"
  by (simp_all add: launch_world_simps reports_listening DEFAULT_PORT_def search_full)

theorem start_server_exit_status_witness:
  "shell (demo_world [] ''y'') [''node'', ''--version''] = Raised FileNotFoundError \<and>
   run_outcome (start_server (demo_world [] ''y'')) = Exit 1 \<and>
   run_outcome (start_server
     (launch_world [8000, 8001, 8002, 8003, 8004, 8005, 8006, 8007, 8008, 8009] Hangs Map.empty)) = Exit 1 \<and>
   run_outcome (start_server (launch_world [] (Completed 1 []) Map.empty)) = Exit 1 \<and>
   run_outcome (start_server (launch_world [8000] (Raised KeyboardInterrupt) Map.empty)) = Exit 0 \<and>
   run_outcome (start_server (launch_world [8000] Hangs Map.empty)) \<noteq> Exit 1"
proof -
  have a: "run_outcome (start_server (demo_world [] ''y'')) = Exit 1"
    using start_server_exit_status[of "demo_world [] ''y''"] demo_node_fails by blast
  have b: "run_outcome (start_server
     (launch_world [8000, 8001, 8002, 8003, 8004, 8005, 8006, 8007, 8008, 8009] Hangs Map.empty)) = Exit 1"
    using start_server_exit_status[of
        "launch_world [8000, 8001, 8002, 8003, 8004, 8005, 8006, 8007, 8008, 8009] Hangs Map.empty"]
      launch_node_ok resolved_full by blast
  have "server_failed (launch_world [] (Completed 1 []) Map.empty) 8000"
    by (simp add: server_failed_def launch_npx)
  then have c: "run_outcome (start_server (launch_world [] (Completed 1 []) Map.empty)) = Exit 1"
    using start_server_exit_status[of "launch_world [] (Completed 1 []) Map.empty"]
      launch_node_ok resolved_free by blast
  have d: "run_outcome (start_server (launch_world [8000] (Raised KeyboardInterrupt) Map.empty)) = Exit 0"
    using start_server_exit_status[of "launch_world [8000] (Raised KeyboardInterrupt) Map.empty"]
      launch_node_ok resolved_8001 launch_npx by blast
  have "\<not> server_failed (launch_world [8000] Hangs Map.empty) 8001"
    by (simp add: server_failed_def launch_npx)
  moreover have "\<not> (find_free_port (net_search (launch_world [8000] Hangs Map.empty)) HOST DEFAULT_PORT 10 = Inr None)"
    by (simp add: launch_world_simps DEFAULT_PORT_def search_from_8000)
  ultimately have e: "run_outcome (start_server (launch_world [8000] Hangs Map.empty)) \<noteq> Exit 1"
    using start_server_exit_status[of "launch_world [8000] Hangs Map.empty"]
      launch_node_ok[of "[8000]" Hangs Map.empty] resolved_8001[of Hangs Map.empty] by auto
  have f: "shell (demo_world [] ''y'') [''node'', ''--version''] = Raised FileNotFoundError"
    by (simp add: demo_shell_simps demo_shell_def)
  from a b c d e f show ?thesis by blast
qed

text \<open>
  The claim as stated (status 1 exactly when Node.js is absent or the search returns none)
  fails: with Node.js installed and port 8000 free, a server command that ends with
  return code 1 makes the launcher exit with 1.
\<close>

theorem server_failure_counterexample:
  "snd (check_node_installed (launch_world [] (Completed 1 []) Map.empty)) = Inr True \<and>
   check_port_available (net_check (launch_world [] (Completed 1 []) Map.empty)) HOST DEFAULT_PORT = Inr True \<and>
   find_free_port (net_search (launch_world [] (Completed 1 []) Map.empty)) HOST DEFAULT_PORT 10 = Inr (Some 8000) \<and>
   run_outcome (start_server (launch_world [] (Completed 1 []) Map.empty)) = Exit 1"
proof -
  let ?w = "launch_world [] (Completed 1 []) Map.empty"
  obtain sofar env where s: "start_server ?w = serve_npx ?w sofar env 8000"
    using start_server_resolved[OF launch_node resolved_free] by blast
  have "run_outcome (start_server ?w) = Exit 1"
    by (simp add: s serve_npx_outcome launch_npx)
  then show ?thesis
    by (simp add: launch_node launch_world_simps check_listening DEFAULT_PORT_def search_free)
qed

subsection \<open>The environment variable\<close>

lemma check_node_environ: "check_node_installed (w\<lparr>environ := env\<rparr>) = check_node_installed w"
  by (simp add: check_node_installed_def)

lemma serve_npx_environ:
  "run_events (serve_npx (w\<lparr>environ := env\<rparr>) sofar e1 p) = run_events (serve_npx w sofar e2 p)"
  "run_PORT (serve_npx (w\<lparr>environ := env\<rparr>) sofar e1 p) = run_PORT (serve_npx w sofar e2 p)"
  "run_outcome (serve_npx (w\<lparr>environ := env\<rparr>) sofar e1 p) = run_outcome (serve_npx w sofar e2 p)"
  by (simp_all add: serve_npx_def Let_def split: run_result.splits)

lemma start_server_environ:
  "run_events (start_server (w\<lparr>environ := env\<rparr>)) = run_events (start_server w) \<and>
   run_PORT (start_server (w\<lparr>environ := env\<rparr>)) = run_PORT (start_server w) \<and>
   run_outcome (start_server (w\<lparr>environ := env\<rparr>)) = run_outcome (start_server w)"
proof -
  obtain ev r where n: "check_node_installed w = (ev, r)" by (cases "check_node_installed w")
  show ?thesis
  proof (cases r)
    case (Inl e)
    with n show ?thesis by (simp add: start_server_def check_node_environ)
  next
    case (Inr ok)
    show ?thesis
    proof (cases ok)
      case False
      with n Inr show ?thesis by (simp add: start_server_def check_node_environ)
    next
      case True
      show ?thesis
      proof (cases "check_port_available (net_check w) HOST DEFAULT_PORT")
        case (Inl e)
        with n Inr True show ?thesis by (simp add: start_server_def check_node_environ)
      next
        case free: (Inr free)
        show ?thesis
        proof (cases free)
          case True
          with n Inr \<open>ok\<close> free show ?thesis
            using serve_npx_environ[where w=w and env=env and sofar="Chdir # ev" and ?e1.0=env and p=DEFAULT_PORT and ?e2.0="environ w"]
            by (simp add: start_server_def check_node_environ)
        next
          case False
          show ?thesis
          proof (cases "find_free_port (net_search w) HOST DEFAULT_PORT 10")
            case (Inl e)
            with n Inr \<open>ok\<close> free False show ?thesis
              by (simp add: start_server_def check_node_environ)
          next
            case s: (Inr fp)
            show ?thesis
            proof (cases "truthy fp")
              case None
              with n Inr \<open>ok\<close> free False s show ?thesis
                by (simp add: start_server_def check_node_environ)
            next
              case (Some p)
              with n Inr \<open>ok\<close> free False s show ?thesis
                using serve_npx_environ[where w=w and env=env and ?e1.0="env(''PORT'' \<mapsto> py_str p)" and p=p
                    and ?e2.0="(environ w)(''PORT'' \<mapsto> py_str p)"]
                by (simp add: start_server_def check_node_environ)
            qed
          qed
        qed
      qed
    qed
  qed
qed

lemma start_server_found:
  assumes "node_ok w" and "reports_occupied (net_check w) HOST DEFAULT_PORT"
    and "find_free_port (net_search w) HOST DEFAULT_PORT 10 = Inr (Some p)"
  shows "start_server w =
      serve_npx w (Chdir # fst (check_node_installed w) @
                     [Print (Port_taken DEFAULT_PORT), Print Searching_free,
                      Print (Found_free p), Setenv ''PORT'' (py_str p)])
        ((environ w)(''PORT'' \<mapsto> py_str p)) p"
proof -
  from node_ok_events[OF assms(1)] obtain ev where n: "check_node_installed w = (ev, Inr True)"
    by blast
  from assms(3) have t: "truthy (Some p) = Some p" using truthy_search by blast
  show ?thesis
    using assms n t by (simp add: start_server_def reports_occupied_def)
qed

lemma npx_not_in_check: "Run (npx_command p) \<notin> set (fst (check_node_installed w))"
  by (auto simp: check_node_installed_def npx_command_def split: sum.splits)

lemma no_setenv_in_check: "Setenv k v \<notin> set (fst (check_node_installed w))"
  by (auto simp: check_node_installed_def split: sum.splits)

text \<open>
  Claim C8, as amended. The launcher writes the environment variable \<open>PORT\<close> and never
  reads it: its events, its port and its exit are the same whatever the environment holds.
  When the Node.js check succeeds, the default port is occupied and the search finds a
  port, the run is: the change of directory, the Node.js check, the three messages, the
  assignment of that port in decimal to \<open>PORT\<close>, the banner, the browser thread, the server
  command with the same port after \<^verbatim>\<open>-p\<close>, and at most one closing message. So the variable
  is set once, before the server command is started, and the server command is not started
  before that. In every other run the environment is left as it was and nothing is set.
\<close>

theorem start_server_environment:
  "run_events (start_server (w\<lparr>environ := env\<rparr>)) = run_events (start_server w) \<and>
   run_PORT (start_server (w\<lparr>environ := env\<rparr>)) = run_PORT (start_server w) \<and>
   run_outcome (start_server (w\<lparr>environ := env\<rparr>)) = run_outcome (start_server w) \<and>
   (node_ok w \<and> reports_occupied (net_check w) HOST DEFAULT_PORT \<and>
    find_free_port (net_search w) HOST DEFAULT_PORT 10 = Inr (Some p)
    \<longrightarrow> run_environ (start_server w) = (environ w)(''PORT'' \<mapsto> py_str p) \<and>
        run_PORT (start_server w) = p \<and>
        (\<exists>tail. run_events (start_server w) =
            Chdir # fst (check_node_installed w) @
            [Print (Port_taken DEFAULT_PORT), Print Searching_free, Print (Found_free p),
             Setenv ''PORT'' (py_str p)] @
            print_header p @
            [Print Starting, Print Blank, Start_browser_thread p, Run (npx_command p)] @ tail \<and>
            (tail = [] \<or> tail = [Print (Server_error CalledProcessError)] \<or>
             tail = [Print Stopped_by_user])) \<and>
        (\<exists>pre post. run_events (start_server w) = pre @ Setenv ''PORT'' (py_str p) # post \<and>
            Run (npx_command p) \<notin> set pre \<and> Run (npx_command p) \<in> set post \<and>
            (\<forall>k v. Setenv k v \<notin> set pre \<and> Setenv k v \<notin> set post))) \<and>
   (\<not> (node_ok w \<and> reports_occupied (net_check w) HOST DEFAULT_PORT \<and>
       (\<exists>q. find_free_port (net_search w) HOST DEFAULT_PORT 10 = Inr (Some q)))
    \<longrightarrow> run_environ (start_server w) = environ w \<and>
        (\<forall>k v. Setenv k v \<notin> set (run_events (start_server w))))"
proof (intro conjI impI)
  assume a: "node_ok w \<and> reports_occupied (net_check w) HOST DEFAULT_PORT \<and>
    find_free_port (net_search w) HOST DEFAULT_PORT 10 = Inr (Some p)"
  let ?pre = "Chdir # fst (check_node_installed w) @
      [Print (Port_taken DEFAULT_PORT), Print Searching_free, Print (Found_free p)]"
  have s: "start_server w =
      serve_npx w (?pre @ [Setenv ''PORT'' (py_str p)]) ((environ w)(''PORT'' \<mapsto> py_str p)) p"
    using start_server_found[of w p] a by simp
  show "run_environ (start_server w) = (environ w)(''PORT'' \<mapsto> py_str p)"
    "run_PORT (start_server w) = p"
    by (simp_all add: s serve_npx_fields)
  from serve_npx_events[of w "?pre @ [Setenv ''PORT'' (py_str p)]" "(environ w)(''PORT'' \<mapsto> py_str p)" p]
  obtain tail where ev: "run_events (start_server w) =
        (?pre @ [Setenv ''PORT'' (py_str p)]) @ print_header p @
        [Print Starting, Print Blank, Start_browser_thread p, Run (npx_command p)] @ tail"
    and tl: "tail = [] \<or> tail = [Print (Server_error CalledProcessError)] \<or>
             tail = [Print Stopped_by_user]"
    unfolding s by blast
  from ev tl show "\<exists>tail. run_events (start_server w) =
            Chdir # fst (check_node_installed w) @
            [Print (Port_taken DEFAULT_PORT), Print Searching_free, Print (Found_free p),
             Setenv ''PORT'' (py_str p)] @
            print_header p @
            [Print Starting, Print Blank, Start_browser_thread p, Run (npx_command p)] @ tail \<and>
            (tail = [] \<or> tail = [Print (Server_error CalledProcessError)] \<or>
             tail = [Print Stopped_by_user])"
    by auto
  let ?post = "print_header p @
        [Print Starting, Print Blank, Start_browser_thread p, Run (npx_command p)] @ tail"
  have e1: "run_events (start_server w) = ?pre @ Setenv ''PORT'' (py_str p) # ?post"
    using ev by simp
  have e2: "Run (npx_command p) \<notin> set ?pre"
    using npx_not_in_check[of p w] by simp
  have e3: "Run (npx_command p) \<in> set ?post" by simp
  have e4: "Setenv k v \<notin> set ?pre" for k v
    using no_setenv_in_check[of k v w] by simp
  have e5: "Setenv k v \<notin> set ?post" for k v
    using tl by (auto simp: print_header_def)
  from e1 e2 e3 e4 e5
  show "\<exists>pre post. run_events (start_server w) = pre @ Setenv ''PORT'' (py_str p) # post \<and>
            Run (npx_command p) \<notin> set pre \<and> Run (npx_command p) \<in> set post \<and>
            (\<forall>k v. Setenv k v \<notin> set pre \<and> Setenv k v \<notin> set post)"
    by blast
next
  assume a0: "\<not> (node_ok w \<and> reports_occupied (net_check w) HOST DEFAULT_PORT \<and>
       (\<exists>q. find_free_port (net_search w) HOST DEFAULT_PORT 10 = Inr (Some q)))"
  then have a: "\<not> (snd (check_node_installed w) = Inr True \<and> reports_occupied (net_check w) HOST DEFAULT_PORT \<and>
       (\<exists>q. find_free_port (net_search w) HOST DEFAULT_PORT 10 = Inr (Some q)))"
    by (simp add: check_node_iff)
  have ne: "\<And>ev. check_node_installed w = (ev, r) \<Longrightarrow> Setenv k v \<notin> set ev" for r k v
    by (auto simp: check_node_installed_def split: sum.splits if_splits)
  have sn: "\<And>sofar. (\<forall>k v. Setenv k v \<notin> set sofar) \<Longrightarrow>
      (\<forall>k v. Setenv k v \<notin> set (run_events (serve_npx w sofar e p)))" for e p
    by (auto simp: serve_npx_def print_header_def Let_def split: run_result.splits)
  have "run_environ (start_server w) = environ w \<and>
        (\<forall>k v. Setenv k v \<notin> set (run_events (start_server w)))"
  proof -
    obtain ev r where n: "check_node_installed w = (ev, r)" by (cases "check_node_installed w")
    note ev = ne[OF n]
    show ?thesis
    proof (cases r)
      case (Inl e)
      with n ev show ?thesis by (simp add: start_server_def)
    next
      case (Inr ok)
      show ?thesis
      proof (cases ok)
        case False
        with n ev Inr show ?thesis by (simp add: start_server_def)
      next
        case True
        show ?thesis
        proof (cases "check_port_available (net_check w) HOST DEFAULT_PORT")
          case (Inl e)
          with n ev Inr True show ?thesis by (simp add: start_server_def)
        next
          case free: (Inr free)
          show ?thesis
          proof (cases free)
            case True
            have "\<forall>k v. Setenv k v \<notin> set (Chdir # ev)" using ev by simp
            from sn[OF this] n Inr \<open>ok\<close> free True show ?thesis
              by (simp add: start_server_def serve_npx_fields)
          next
            case False
            show ?thesis
            proof (cases "find_free_port (net_search w) HOST DEFAULT_PORT 10")
              case (Inl e)
              with n ev Inr \<open>ok\<close> free False show ?thesis by (simp add: start_server_def)
            next
              case s: (Inr fp)
              with a n Inr \<open>ok\<close> free False have "fp = None"
                by (cases fp) (auto simp: reports_occupied_def)
              with n ev Inr \<open>ok\<close> free False s show ?thesis
                by (simp add: start_server_def truthy_def)
            qed
          qed
        qed
      qed
    qed
  qed
  then show "run_environ (start_server w) = environ w"
    and "\<forall>k v. Setenv k v \<notin> set (run_events (start_server w))" by blast+
qed (simp_all add: start_server_environ)

lemma launch_world_environ:
  "(launch_world busy served env)\<lparr>environ := env'\<rparr> = launch_world busy served env'"
  by (simp add: launch_world_def)

lemma py_str_8001: "py_str 8001 = ''8001''"
  by (simp add: py_str_def digits.simps digit_char_def)

lemma launch_occupied:
  "reports_occupied (net_check (launch_world [8000] served env)) HOST DEFAULT_PORT"
  "find_free_port (net_search (launch_world [8000] served env)) HOST DEFAULT_PORT 10 = Inr (Some 8001)"
  by (simp_all add: launch_world_simps reports_listening DEFAULT_PORT_def search_from_8000)

lemma npx_command_8001:
  "npx_command 8001 = [''npx'', ''http-server'', ''-p'', ''8001'', ''-d'', ''false'', ''-o'']"
  by (simp add: npx_command_def py_str_8001)

theorem start_server_environment_witness:
  "run_events (start_server (launch_world [8000] Hangs [''PORT'' \<mapsto> ''9000''])) =
     run_events (start_server (launch_world [8000] Hangs Map.empty)) \<and>
   run_PORT (start_server (launch_world [8000] Hangs [''PORT'' \<mapsto> ''9000''])) = 8001 \<and>
   run_environ (start_server (launch_world [8000] Hangs [''PORT'' \<mapsto> ''9000''])) =
     [''PORT'' \<mapsto> ''8001''] \<and>
   (\<exists>pre post.
      run_events (start_server (launch_world [8000] Hangs [''PORT'' \<mapsto> ''9000''])) =
        pre @ Setenv ''PORT'' ''8001'' # post \<and>
      Run [''npx'', ''http-server'', ''-p'', ''8001'', ''-d'', ''false'', ''-o''] \<notin> set pre \<and>
      Run [''npx'', ''http-server'', ''-p'', ''8001'', ''-d'', ''false'', ''-o''] \<in> set post) \<and>
   run_environ (start_server (launch_world [] Hangs [''PORT'' \<mapsto> ''9000''])) = [''PORT'' \<mapsto> ''9000'']"
proof -
  let ?w = "launch_world [8000] Hangs Map.empty"
  let ?v = "launch_world [8000] Hangs [''PORT'' \<mapsto> ''9000'']"
  let ?u = "launch_world [] Hangs [''PORT'' \<mapsto> ''9000'']"
  from start_server_environment[where w="?w" and env="[''PORT'' \<mapsto> ''9000'']" and p=8001]
  have a: "run_events (start_server ?v) = run_events (start_server ?w)"
    by (simp add: launch_world_environ)
  from start_server_environment[where w="?v" and env=Map.empty and p=8001] launch_node_ok launch_occupied
  have b: "run_environ (start_server ?v) = (environ ?v)(''PORT'' \<mapsto> py_str 8001) \<and>
        run_PORT (start_server ?v) = 8001 \<and>
        (\<exists>pre post. run_events (start_server ?v) = pre @ Setenv ''PORT'' (py_str 8001) # post \<and>
            Run (npx_command 8001) \<notin> set pre \<and> Run (npx_command 8001) \<in> set post)"
    by blast
  have "\<not> reports_occupied (net_check ?u) HOST DEFAULT_PORT"
    by (simp add: launch_world_simps reports_listening)
  with start_server_environment[where w="?u" and env=Map.empty and p=8000]
  have c: "run_environ (start_server ?u) = environ ?u" by blast
  from a b c show ?thesis by (simp add: py_str_8001 npx_command_8001 launch_world_simps)
qed

text \<open>
  The claim as stated (the variable is read to let the operator override the port) fails:
  with \<open>PORT=9000\<close> in the environment and port 8000 free, the server is started on 8000.
\<close>

theorem environment_not_read_counterexample:
  "environ (launch_world [] Hangs [''PORT'' \<mapsto> ''9000'']) ''PORT'' = Some ''9000'' \<and>
   run_PORT (start_server (launch_world [] Hangs [''PORT'' \<mapsto> ''9000''])) = 8000 \<and>
   Run [''npx'', ''http-server'', ''-p'', ''8000'', ''-d'', ''false'', ''-o'']
     \<in> set (run_events (start_server (launch_world [] Hangs [''PORT'' \<mapsto> ''9000''])))"
proof -
  let ?u = "launch_world [] Hangs [''PORT'' \<mapsto> ''9000'']"
  obtain sofar env where s: "start_server ?u = serve_npx ?u sofar env 8000"
    using start_server_resolved[OF launch_node resolved_free] by blast
  have "npx_command 8000 = [''npx'', ''http-server'', ''-p'', ''8000'', ''-d'', ''false'', ''-o'']"
    by (simp add: npx_command_def py_str_demo)
  with serve_npx_fields(2,3)[where w="?u" and sofar=sofar and env=env and port=8000] show ?thesis
    by (simp add: s launch_world_simps)
qed

end
